theory Spec2Isabelle
  imports Complex_Main
begin

section \<open>Numbers\<close>

text \<open>
  The simulator computes with Python floats, which are binary doubles. Here a number is
  an exact rational: a decimal literal of the source denotes its decimal value, \<open>+\<close>,
  \<open>-\<close>, \<open>*\<close>, \<open>/\<close> are exact, and NaN and the infinities are left out. Python's
  \<open>round(x, n)\<close> rounds the value of \<open>x\<close> to \<open>n\<close> decimals, ties going to the even
  neighbour. This is an idealisation: the doubles of the program carry a representation
  error, so the program and the model can differ where a product or a sum falls on or
  next to a decimal tie, and a sum of doubles need not be the double of the exact sum.
  The statements below therefore keep every arithmetic expression in the shape the
  source computes it, under its \<open>round\<close>, and state no equality that needs a sum or a
  product to be exact. The numbers of the scenarios are doubles on which the program
  computes the same values.
\<close>

definition round_half_even :: "rat \<Rightarrow> int" where
  "round_half_even x =
     (let f = \<lfloor>x\<rfloor>; d = x - of_int f
      in if d < 1 / 2 then f
         else if 1 / 2 < d then f + 1
         else if even f then f else f + 1)"

definition py_round :: "rat \<Rightarrow> nat \<Rightarrow> rat" where
  "py_round x n = of_int (round_half_even (x * 10 ^ n)) / 10 ^ n"

text \<open>\<open>sub in s\<close> on Python strings: \<open>sub\<close> occurs in \<open>s\<close> as a contiguous block.\<close>

fun starts_with :: "string \<Rightarrow> string \<Rightarrow> bool" where
  "starts_with [] s = True"
| "starts_with (a # as) [] = False"
| "starts_with (a # as) (b # bs) = (a = b \<and> starts_with as bs)"

fun contains :: "string \<Rightarrow> string \<Rightarrow> bool" where
  "contains sub [] = (sub = [])"
| "contains sub (c # cs) = (starts_with sub (c # cs) \<or> contains sub cs)"

datatype py_error = IndexError | ZeroDivisionError

section \<open>simulator.py: constants\<close>

definition INITIAL_CAPITAL :: rat where "INITIAL_CAPITAL = 100"
definition TRADE_PCT :: rat where "TRADE_PCT = 2 / 100"
definition MIN_CONFIDENCE :: rat where "MIN_CONFIDENCE = 65"
definition ENTRY_AFTER_N :: int where "ENTRY_AFTER_N = 4"

section \<open>simulator.py: Trade\<close>

text \<open>The dataclass \<open>Trade\<close>; its field \<open>id\<close> is \<open>trade_id\<close> here.\<close>

record trade =
  trade_id :: int
  market :: string
  direction :: string
  entry_price :: rat
  shares :: rat
  bet_size :: rat
  entry_time :: string
  exit_price :: "rat option"
  pnl :: "rat option"
  status :: string

definition mark_to_market :: "trade \<Rightarrow> rat \<Rightarrow> rat" where
  "mark_to_market t current_price = py_round (shares t * current_price) 4"

definition unrealized_pnl :: "trade \<Rightarrow> rat \<Rightarrow> rat" where
  "unrealized_pnl t current_price = py_round (mark_to_market t current_price - bet_size t) 4"

text \<open>\<open>Trade.close\<close> mutates the trade and returns its pnl: the pair of both.\<close>

definition close :: "trade \<Rightarrow> bool \<Rightarrow> rat \<Rightarrow> rat \<times> trade" where
  "close t won exit_price_arg =
     (let t1 = t\<lparr>exit_price := Some exit_price_arg\<rparr>
      in if won
         then (let proceeds = shares t1 * 1;
                   v = py_round (proceeds - bet_size t1) 4
               in (v, t1\<lparr>pnl := Some v, status := ''WIN''\<rparr>))
         else (let v = py_round (- bet_size t1) 4
               in (v, t1\<lparr>pnl := Some v, status := ''LOSS''\<rparr>)))"

section \<open>db.py: the persistence gateway\<close>

text \<open>
  The table \<open>portfolio_state\<close> holds at most one row (\<open>id = 1\<close>); the table \<open>trades\<close>
  has the primary key \<open>id\<close>. The rows of \<open>trades\<close> are kept as a list. The tables are
  taken to exist (\<open>init_db\<close> has run); the table \<open>sessions\<close> is never read and is
  left out. \<open>json.dumps\<close> followed by \<open>json.loads\<close> gives a list of floats back as it
  was, so the column \<open>pnl_history\<close> holds the list itself.
\<close>

record state_row =
  row_capital :: rat
  row_initial_capital :: rat
  row_pnl_history :: "rat list"
  row_trade_counter :: int

record database =
  trades :: "trade list"
  portfolio_state :: "state_row option"

definition empty_db :: database where
  "empty_db = \<lparr>trades = [], portfolio_state = None\<rparr>"

text \<open>\<open>INSERT OR REPLACE\<close>: a row with the same primary key is deleted first.\<close>

definition save_trade :: "trade \<Rightarrow> database \<Rightarrow> database" where
  "save_trade t d =
     d\<lparr>trades := filter (\<lambda>r. trade_id r \<noteq> trade_id t) (trades d) @ [t]\<rparr>"

definition save_portfolio_state :: "rat \<Rightarrow> rat \<Rightarrow> rat list \<Rightarrow> int \<Rightarrow> database \<Rightarrow> database" where
  "save_portfolio_state capital_arg initial_capital_arg pnl_history_arg trade_counter_arg d =
     d\<lparr>portfolio_state := Some \<lparr>row_capital = capital_arg,
                                 row_initial_capital = initial_capital_arg,
                                 row_pnl_history = pnl_history_arg,
                                 row_trade_counter = trade_counter_arg\<rparr>\<rparr>"

text \<open>The dictionary that \<open>load_state\<close> returns and \<open>Portfolio.restore\<close> reads.\<close>

record saved_state =
  saved_capital :: rat
  saved_initial_capital :: rat
  saved_pnl_history :: "rat list"
  saved_trade_counter :: int
  saved_closed_trades :: "trade list"

text \<open>
  \<open>SELECT * FROM trades WHERE status != 'OPEN' ORDER BY id\<close>, and the loop that
  builds one \<open>Trade\<close> per row, field by field.
\<close>

definition select_closed :: "database \<Rightarrow> trade list" where
  "select_closed d = sort_key trade_id (filter (\<lambda>r. status r \<noteq> ''OPEN'') (trades d))"

fun rows_to_trades :: "trade list \<Rightarrow> trade list \<Rightarrow> trade list" where
  "rows_to_trades [] acc = acc"
| "rows_to_trades (r # rows) acc =
     rows_to_trades rows
       (acc @ [\<lparr>trade_id = trade_id r, market = market r, direction = direction r,
                   entry_price = entry_price r, shares = shares r, bet_size = bet_size r,
                   entry_time = entry_time r, exit_price = exit_price r, pnl = pnl r,
                   status = status r\<rparr>])"

text \<open>
  With a snapshot row, the log line formats \<open>pnl_history[-1]\<close> before anything is
  returned: an empty history raises \<open>IndexError\<close>.
\<close>

definition load_state :: "database \<Rightarrow> py_error + saved_state" where
  "load_state d =
     (case portfolio_state d of
        Some row \<Rightarrow>
          if row_pnl_history row = [] then Inl IndexError
          else Inr \<lparr>saved_capital = row_capital row,
                    saved_initial_capital = row_initial_capital row,
                    saved_pnl_history = row_pnl_history row,
                    saved_trade_counter = row_trade_counter row,
                    saved_closed_trades = rows_to_trades (select_closed d) []\<rparr>
      | None \<Rightarrow>
          Inr \<lparr>saved_capital = 100,
               saved_initial_capital = 100,
               saved_pnl_history = [0],
               saved_trade_counter = 0,
               saved_closed_trades = rows_to_trades (select_closed d) []\<rparr>)"

section \<open>simulator.py: Portfolio\<close>

text \<open>The argument of \<open>consider_entry\<close>, a dictionary read at two keys.\<close>

record signal =
  label :: string
  confidence :: rat

text \<open>The dictionary \<open>_signal_streak\<close>, keys \<open>label\<close> and \<open>count\<close>.\<close>

record streak =
  streak_label :: "string option"
  count :: int

definition no_streak :: streak where
  "no_streak = \<lparr>streak_label = None, count = 0\<rparr>"

text \<open>
  The field \<open>db\<close> is \<open>None\<close> when the portfolio was built without the module, and
  otherwise the content of the module's tables.
\<close>

record portfolio =
  initial_capital :: rat
  capital :: rat
  trade_pct :: rat
  active_trade :: "trade option"
  closed_trades :: "trade list"
  pnl_history :: "rat list"
  trade_counter :: int
  db :: "database option"
  signal_streak :: streak

definition Portfolio :: "rat \<Rightarrow> rat \<Rightarrow> database option \<Rightarrow> portfolio" where
  "Portfolio initial_capital_arg trade_pct_arg db_arg =
     \<lparr>initial_capital = initial_capital_arg,
      capital = initial_capital_arg,
      trade_pct = trade_pct_arg,
      active_trade = None,
      closed_trades = [],
      pnl_history = [0],
      trade_counter = 0,
      db = db_arg,
      signal_streak = no_streak\<rparr>"

definition restore :: "saved_state \<Rightarrow> portfolio \<Rightarrow> portfolio" where
  "restore saved p =
     p\<lparr>capital := saved_capital saved,
       initial_capital := saved_initial_capital saved,
       pnl_history := saved_pnl_history saved,
       trade_counter := saved_trade_counter saved,
       closed_trades := saved_closed_trades saved\<rparr>"

text \<open>
  Lines 108 and 113 of \<open>consider_entry\<close>: the labels that count as directional,
  and the direction, UP or DOWN, of such a label.
\<close>

definition directional :: "string \<Rightarrow> bool" where
  "directional lbl = (lbl \<in> set [''UP'', ''DOWN'', ''STRONG UP'', ''STRONG DOWN''])"

definition direction_of :: "string \<Rightarrow> string" where
  "direction_of lbl = (if contains ''UP'' lbl then ''UP'' else ''DOWN'')"

text \<open>Lines 116 to 119 of \<open>consider_entry\<close>: the streak after a directional signal.\<close>

definition track_streak :: "streak \<Rightarrow> string \<Rightarrow> streak" where
  "track_streak s dir =
     (if streak_label s = Some dir then s\<lparr>count := count s + 1\<rparr>
      else \<lparr>streak_label = Some dir, count = 1\<rparr>)"

text \<open>
  \<open>consider_entry\<close> returns its boolean and the portfolio after the call. The clock
  reading \<open>datetime.utcnow().strftime(...)\<close> is the argument \<open>now\<close>.
\<close>

definition consider_entry ::
  "signal \<Rightarrow> string \<Rightarrow> rat \<Rightarrow> rat \<Rightarrow> string \<Rightarrow> portfolio \<Rightarrow> bool \<times> portfolio" where
  "consider_entry sig market_question up_price down_price now p =
     (if active_trade p \<noteq> None then (False, p)
      else if capital p < 1 then (False, p)
      else
        let lbl = label sig; conf = confidence sig
        in if \<not> directional lbl
           then (False, p\<lparr>signal_streak := no_streak\<rparr>)
           else
             let dir = direction_of lbl;
                 p1 = p\<lparr>signal_streak := track_streak (signal_streak p) dir\<rparr>
             in if count (signal_streak p1) < ENTRY_AFTER_N then (False, p1)
                else if conf < MIN_CONFIDENCE then (False, p1)
                else
                  let bet = py_round (capital p1 * trade_pct p1) 2;
                      price = (if dir = ''UP'' then up_price else down_price)
                  in if price \<le> 1 / 100 then (False, p1)
                     else
                       let sh = py_round (bet / price) 4;
                           p2 = p1\<lparr>trade_counter := trade_counter p1 + 1\<rparr>;
                           t = \<lparr>trade_id = trade_counter p2, market = market_question,
                                direction = dir, entry_price = price, shares = sh,
                                bet_size = bet, entry_time = now, exit_price = None,
                                pnl = None, status = ''OPEN''\<rparr>;
                           p3 = p2\<lparr>active_trade := Some t, signal_streak := no_streak\<rparr>
                       in (True, p3\<lparr>db := map_option (save_trade t) (db p3)\<rparr>))"

definition current_price_for_trade :: "portfolio \<Rightarrow> rat \<Rightarrow> rat \<Rightarrow> rat" where
  "current_price_for_trade p up_price down_price =
     (case active_trade p of
        None \<Rightarrow> 0
      | Some t \<Rightarrow> if direction t = ''UP'' then up_price else down_price)"

definition get_unrealized :: "portfolio \<Rightarrow> rat \<Rightarrow> rat \<Rightarrow> rat" where
  "get_unrealized p up_price down_price =
     (case active_trade p of
        None \<Rightarrow> 0
      | Some t \<Rightarrow> unrealized_pnl t (current_price_for_trade p up_price down_price))"

text \<open>
  \<open>close_trade\<close> returns the resolved trade, or \<open>None\<close>, and the portfolio after the
  call.
\<close>

definition close_trade ::
  "rat \<Rightarrow> rat \<Rightarrow> bool option \<Rightarrow> portfolio \<Rightarrow> trade option \<times> portfolio" where
  "close_trade up_price down_price force_winner p =
     (case active_trade p of
        None \<Rightarrow> (None, p)
      | Some tr \<Rightarrow>
          let won = (case force_winner of
                       Some w \<Rightarrow> w
                     | None \<Rightarrow> if direction tr = ''UP'' then up_price \<ge> 1 / 2
                               else down_price \<ge> 1 / 2);
              xp = (if won then 1 else 0);
              (v, tr') = close tr won xp;
              p1 = p\<lparr>capital := py_round (capital p + bet_size tr' + v) 4\<rparr>;
              p2 = p1\<lparr>closed_trades := closed_trades p1 @ [tr'],
                      active_trade := None,
                      signal_streak := no_streak\<rparr>;
              total_pnl = py_round (capital p2 - initial_capital p2) 4;
              p3 = p2\<lparr>pnl_history := pnl_history p2 @ [py_round total_pnl 4]\<rparr>
          in (Some tr',
              p3\<lparr>db := map_option
                          (\<lambda>d. save_portfolio_state (capital p3) (initial_capital p3)
                                  (pnl_history p3) (trade_counter p3) (save_trade tr' d))
                          (db p3)\<rparr>))"

definition cancel_active_trade :: "portfolio \<Rightarrow> portfolio" where
  "cancel_active_trade p =
     (case active_trade p of
        None \<Rightarrow> p
      | Some tr \<Rightarrow>
          let tr' = tr\<lparr>status := ''CANCELLED''\<rparr>;
              p1 = p\<lparr>closed_trades := closed_trades p @ [tr']\<rparr>;
              p2 = p1\<lparr>db := map_option
                               (\<lambda>d. save_portfolio_state (capital p1) (initial_capital p1)
                                       (pnl_history p1) (trade_counter p1) (save_trade tr' d))
                               (db p1)\<rparr>
          in p2\<lparr>active_trade := None\<rparr>)"

text \<open>
  The dictionary of \<open>Trade.to_dict\<close> has the keys of the dataclass, so it is a
  \<open>trade\<close> again, with \<open>shares\<close> rounded.
\<close>

definition to_dict :: "trade \<Rightarrow> trade" where
  "to_dict t =
     \<lparr>trade_id = trade_id t, market = market t, direction = direction t,
      entry_price = entry_price t, shares = py_round (shares t) 4, bet_size = bet_size t,
      entry_time = entry_time t, exit_price = exit_price t, pnl = pnl t,
      status = status t\<rparr>"

text \<open>\<open>max(values, default=d)\<close> and \<open>min(values, default=d)\<close> on a finite iterable.\<close>

definition py_max :: "rat list \<Rightarrow> rat \<Rightarrow> rat" where
  "py_max xs d = (case xs of [] \<Rightarrow> d | y # ys \<Rightarrow> foldl max y ys)"

definition py_min :: "rat list \<Rightarrow> rat \<Rightarrow> rat" where
  "py_min xs d = (case xs of [] \<Rightarrow> d | y # ys \<Rightarrow> foldl min y ys)"

text \<open>The dictionary under the key \<open>active_trade\<close> of \<open>stats\<close>.\<close>

record active_view =
  act_trade :: trade
  act_current_price :: rat
  act_mark_to_market :: rat
  act_unrealized_pnl :: rat

text \<open>The dictionary that \<open>stats\<close> returns, one field per key.\<close>

record stats_dict =
  stat_initial_capital :: rat
  stat_capital :: rat
  stat_equity :: rat
  stat_realized_pnl :: rat
  stat_unrealized_pnl :: rat
  stat_total_pnl :: rat
  stat_total_pnl_pct :: rat
  stat_total_trades :: nat
  stat_wins :: nat
  stat_losses :: nat
  stat_cancelled :: nat
  stat_win_rate :: rat
  stat_best_trade :: rat
  stat_worst_trade :: rat
  stat_avg_pnl :: rat
  stat_pnl_history :: "rat list"
  stat_active_trade :: "active_view option"
  stat_trade_log :: "trade list"
  stat_signal_streak :: streak

text \<open>
  \<open>t.pnl for t in closed if t.pnl is not None\<close> is \<open>List.map_filter pnl\<close>; the
  test \<open>if t.pnl\<close> also drops a pnl of zero. The division by \<open>initial_capital\<close>
  raises when it is zero.
\<close>

definition stats :: "portfolio \<Rightarrow> rat \<Rightarrow> rat \<Rightarrow> py_error + stats_dict" where
  "stats p up_price down_price =
     (let cl = closed_trades p;
          wins = filter (\<lambda>t. status t = ''WIN'') cl;
          losses = filter (\<lambda>t. status t = ''LOSS'') cl;
          n_closed = length wins + length losses;
          win_rate = (if n_closed \<noteq> 0
                      then py_round (of_nat (length wins) / of_nat n_closed * 100) 1 else 0);
          realized_pnl = foldl (+) 0 (List.map_filter pnl cl);
          unrealized = get_unrealized p up_price down_price;
          total_pnl = py_round (realized_pnl + unrealized) 4;
          equity = py_round (capital p
                     + (case active_trade p of Some t \<Rightarrow> bet_size t | None \<Rightarrow> 0)
                     + unrealized) 4;
          active = (case active_trade p of
                      None \<Rightarrow> None
                    | Some t \<Rightarrow>
                        let cp = current_price_for_trade p up_price down_price
                        in Some \<lparr>act_trade = to_dict t,
                                 act_current_price = py_round cp 4,
                                 act_mark_to_market = mark_to_market t cp,
                                 act_unrealized_pnl = unrealized_pnl t cp\<rparr>)
      in if initial_capital p = 0 then Inl ZeroDivisionError
         else Inr \<lparr>stat_initial_capital = initial_capital p,
                   stat_capital = py_round (capital p) 4,
                   stat_equity = equity,
                   stat_realized_pnl = py_round realized_pnl 4,
                   stat_unrealized_pnl = py_round unrealized 4,
                   stat_total_pnl = total_pnl,
                   stat_total_pnl_pct = py_round (total_pnl / initial_capital p * 100) 2,
                   stat_total_trades = length cl,
                   stat_wins = length wins,
                   stat_losses = length losses,
                   stat_cancelled = length (filter (\<lambda>t. status t = ''CANCELLED'') cl),
                   stat_win_rate = win_rate,
                   stat_best_trade =
                     py_round (py_max (filter (\<lambda>v. v \<noteq> 0) (List.map_filter pnl cl)) 0) 4,
                   stat_worst_trade =
                     py_round (py_min (filter (\<lambda>v. v \<noteq> 0) (List.map_filter pnl cl)) 0) 4,
                   stat_avg_pnl = (if n_closed \<noteq> 0
                                   then py_round (realized_pnl / of_nat n_closed) 4 else 0),
                   stat_pnl_history = drop (length (pnl_history p) - 50) (pnl_history p),
                   stat_active_trade = active,
                   stat_trade_log = map to_dict (rev (drop (length cl - 20) cl)),
                   stat_signal_streak = signal_streak p\<rparr>)"

section \<open>Runs of the portfolio and of the gateway\<close>

text \<open>
  The three operations that change a portfolio after its construction, and the states
  a sequence of them reaches.
\<close>

datatype op =
    ConsiderEntry signal string rat rat string
  | CloseTrade rat rat "bool option"
  | CancelActiveTrade

fun step :: "op \<Rightarrow> portfolio \<Rightarrow> portfolio" where
  "step (ConsiderEntry sig m up_price down_price now) p =
     snd (consider_entry sig m up_price down_price now p)"
| "step (CloseTrade up_price down_price force_winner) p =
     snd (close_trade up_price down_price force_winner p)"
| "step CancelActiveTrade p = cancel_active_trade p"

definition run :: "op list \<Rightarrow> portfolio \<Rightarrow> portfolio" where
  "run ops p = foldl (\<lambda>q a. step a q) p ops"

text \<open>The trades a portfolio holds: the active one, then the closed ones.\<close>

definition all_trades :: "portfolio \<Rightarrow> trade list" where
  "all_trades p = (case active_trade p of None \<Rightarrow> [] | Some t \<Rightarrow> [t]) @ closed_trades p"

text \<open>A number with at most \<open>n\<close> decimals.\<close>

definition decimals :: "nat \<Rightarrow> rat \<Rightarrow> bool" where
  "decimals n x = (of_int \<lfloor>x * 10 ^ n\<rfloor> = x * 10 ^ n)"

text \<open>The two writes of the gateway, and the database after a sequence of them.\<close>

datatype db_op =
    SaveTrade trade
  | SavePortfolioState rat rat "rat list" int

fun db_step :: "db_op \<Rightarrow> database \<Rightarrow> database" where
  "db_step (SaveTrade t) d = save_trade t d"
| "db_step (SavePortfolioState c ic h n) d = save_portfolio_state c ic h n d"

definition db_run :: "db_op list \<Rightarrow> database \<Rightarrow> database" where
  "db_run ops d = foldl (\<lambda>e a. db_step a e) d ops"

text \<open>
  What a sequence of writes persisted last: the snapshot of its last
  \<open>save_portfolio_state\<close>, and for an id the trade of the last \<open>save_trade\<close> with
  that id.
\<close>

fun last_snapshot :: "db_op list \<Rightarrow> state_row option" where
  "last_snapshot [] = None"
| "last_snapshot (SaveTrade t # ops) = last_snapshot ops"
| "last_snapshot (SavePortfolioState c ic h n # ops) =
     (case last_snapshot ops of
        Some row \<Rightarrow> Some row
      | None \<Rightarrow> Some \<lparr>row_capital = c, row_initial_capital = ic,
                       row_pnl_history = h, row_trade_counter = n\<rparr>)"

fun last_saved :: "db_op list \<Rightarrow> int \<Rightarrow> trade option" where
  "last_saved [] i = None"
| "last_saved (SaveTrade t # ops) i =
     (case last_saved ops i of
        Some u \<Rightarrow> Some u
      | None \<Rightarrow> if trade_id t = i then Some t else None)"
| "last_saved (SavePortfolioState c ic h n # ops) i = last_saved ops i"

section \<open>Scenarios\<close>

text \<open>A signal UP with the given confidence, and four of them at the price 0.40.\<close>

definition up_signal :: "rat \<Rightarrow> signal" where
  "up_signal conf = \<lparr>label = ''UP'', confidence = conf\<rparr>"

definition four_up :: "op list" where
  "four_up = replicate 4 (ConsiderEntry (up_signal 70) ''SOL up or down'' (4 / 10) (6 / 10) ''12:00:00'')"

text \<open>The trade that \<open>four_up\<close> opens on a capital of 100 with 2 percent staked.\<close>

definition scenario_trade :: trade where
  "scenario_trade =
     \<lparr>trade_id = 1, market = ''SOL up or down'', direction = ''UP'', entry_price = 4 / 10,
      shares = 5, bet_size = 2, entry_time = ''12:00:00'', exit_price = None, pnl = None,
      status = ''OPEN''\<rparr>"

text \<open>The trade of the scenario, resolved as a WIN.\<close>

definition won_trade :: trade where
  "won_trade = scenario_trade\<lparr>exit_price := Some 1, pnl := Some 3, status := ''WIN''\<rparr>"

text \<open>
  The trade of the scenario resolved as a LOSS, and a trade entered at the price 1.0 and
  won, whose pnl is zero.
\<close>

definition lost_trade :: trade where
  "lost_trade = scenario_trade\<lparr>exit_price := Some 0, pnl := Some (- 2), status := ''LOSS''\<rparr>"

definition even_trade :: trade where
  "even_trade =
     \<lparr>trade_id = 2, market = ''SOL up or down'', direction = ''UP'', entry_price = 1,
      shares = 2, bet_size = 2, entry_time = ''12:05:00'', exit_price = Some 1,
      pnl = Some 0, status = ''WIN''\<rparr>"

text \<open>
  A signal of confidence 99 with a given label, and two histories of refused calls: one
  that alternates between UP and DOWN, and one that turns from DOWN to three signals UP.
\<close>

definition labelled :: "string \<Rightarrow> signal" where
  "labelled lbl = \<lparr>label = lbl, confidence = 99\<rparr>"

definition alternating :: "op list" where
  "alternating =
     [ConsiderEntry (labelled ''UP'') ''SOL up or down'' (4 / 10) (6 / 10) ''12:00:00'',
      ConsiderEntry (labelled ''DOWN'') ''SOL up or down'' (4 / 10) (6 / 10) ''12:00:03'',
      ConsiderEntry (labelled ''UP'') ''SOL up or down'' (4 / 10) (6 / 10) ''12:00:06'']"

definition turning :: "op list" where
  "turning =
     [ConsiderEntry (labelled ''DOWN'') ''SOL up or down'' (4 / 10) (6 / 10) ''12:00:00'',
      ConsiderEntry (labelled ''UP'') ''SOL up or down'' (4 / 10) (6 / 10) ''12:00:03'',
      ConsiderEntry (labelled ''STRONG UP'') ''SOL up or down'' (4 / 10) (6 / 10) ''12:00:06'',
      ConsiderEntry (labelled ''UP'') ''SOL up or down'' (4 / 10) (6 / 10) ''12:00:09'']"

text \<open>The default portfolio after three consecutive UP signals.\<close>

definition degenerate_portfolio :: portfolio where
  "degenerate_portfolio =
     (Portfolio INITIAL_CAPITAL TRADE_PCT None)
       \<lparr>signal_streak := \<lparr>streak_label = Some ''UP'', count = 3\<rparr>\<rparr>"

section \<open>The life cycle of a trade\<close>

text \<open>
  The fields of a trade that is open, and of one that has been resolved or cancelled:
  \<open>close\<close> sets the exit price and the pnl, a cancellation sets neither.
\<close>

definition open_fields :: "trade \<Rightarrow> bool" where
  "open_fields t = (status t = ''OPEN'' \<and> exit_price t = None \<and> pnl t = None)"

definition closed_fields :: "trade \<Rightarrow> bool" where
  "closed_fields t =
     ((status t = ''WIN'' \<or> status t = ''LOSS'') \<and> exit_price t \<noteq> None \<and> pnl t \<noteq> None
      \<or> status t = ''CANCELLED'' \<and> exit_price t = None \<and> pnl t = None)"

definition lifecycle :: "portfolio \<Rightarrow> bool" where
  "lifecycle p =
     ((case active_trade p of None \<Rightarrow> True | Some t \<Rightarrow> open_fields t)
      \<and> list_all closed_fields (closed_trades p))"

text \<open>
  The distinct ids of a portfolio: no two of the trades it holds share an id, and none
  has an id above the counter.
\<close>

definition fresh_ids :: "portfolio \<Rightarrow> bool" where
  "fresh_ids p =
     (distinct (map trade_id (all_trades p))
      \<and> (\<forall>t \<in> set (all_trades p). trade_id t \<le> trade_counter p))"

section \<open>The streak in the words of the specification\<close>

text \<open>
  The direction that a label signals: UP for the labels UP and STRONG UP, DOWN for DOWN
  and STRONG DOWN, none for any other label.
\<close>

definition signalled_direction :: "string \<Rightarrow> string option" where
  "signalled_direction lbl =
     (if lbl = ''UP'' \<or> lbl = ''STRONG UP'' then Some ''UP''
      else if lbl = ''DOWN'' \<or> lbl = ''STRONG DOWN'' then Some ''DOWN''
      else None)"

text \<open>
  The count of consecutive signals of one direction at the end of a history of labels,
  oldest first: the number of labels, counted back from the last, that signal the
  direction of the last; zero when the last signals none.
\<close>

definition consecutive_count :: "string list \<Rightarrow> int" where
  "consecutive_count labels =
     (case rev labels of
        [] \<Rightarrow> 0
      | l # ls \<Rightarrow>
          (case signalled_direction l of
             None \<Rightarrow> 0
           | Some d \<Rightarrow> int (length (takeWhile (\<lambda>x. signalled_direction x = Some d) (l # ls)))))"

text \<open>The streak that such a history leaves behind.\<close>

definition tracked :: "string list \<Rightarrow> streak" where
  "tracked labels =
     \<lparr>streak_label = (case rev labels of [] \<Rightarrow> None | l # ls \<Rightarrow> signalled_direction l),
      count = consecutive_count labels\<rparr>"

text \<open>
  The labels of the calls of \<open>consider_entry\<close> in a sequence of operations, and the
  sequences that consist of such calls only, each of them refused.
\<close>

fun entry_labels :: "op list \<Rightarrow> string list" where
  "entry_labels [] = []"
| "entry_labels (ConsiderEntry sig m up_price down_price now # ops) =
     label sig # entry_labels ops"
| "entry_labels (a # ops) = entry_labels ops"

fun refused_all :: "op list \<Rightarrow> portfolio \<Rightarrow> bool" where
  "refused_all [] p = True"
| "refused_all (ConsiderEntry sig m up_price down_price now # ops) p =
     (\<not> fst (consider_entry sig m up_price down_price now p)
      \<and> refused_all ops (snd (consider_entry sig m up_price down_price now p)))"
| "refused_all (a # ops) p = False"

section \<open>Rounding\<close>

lemma floor_rat_divide_numeral [simp]:
  "\<lfloor>(numeral a / numeral b :: rat)\<rfloor> = numeral a div numeral b"
  by (metis floor_divide_of_int_eq of_int_numeral)

lemma floor_rat_minus_divide_numeral [simp]:
  "\<lfloor>- (numeral a / numeral b :: rat)\<rfloor> = - numeral a div numeral b"
  by (metis divide_minus_left floor_divide_of_int_eq of_int_neg_numeral of_int_numeral)

lemmas py_round_eval = py_round_def round_half_even_def Let_def

lemma round_half_even_of_int: "round_half_even (of_int k) = k"
  by (simp add: round_half_even_def)

lemma decimalsI: "x * 10 ^ n = of_int k \<Longrightarrow> decimals n x"
  by (simp add: decimals_def)

lemma decimalsE: "decimals n x \<Longrightarrow> \<exists>k. x * 10 ^ n = of_int k"
  unfolding decimals_def by metis

lemma py_round_decimals: "decimals n x \<Longrightarrow> py_round x n = x"
proof -
  assume "decimals n x"
  then obtain k where k: "x * 10 ^ n = of_int k" using decimalsE by blast
  then have "py_round x n = of_int k / 10 ^ n"
    by (simp add: py_round_def round_half_even_of_int)
  also have "\<dots> = x" using k by (simp add: field_simps)
  finally show ?thesis .
qed

lemma decimals_py_round: "decimals n (py_round x n)"
  by (rule decimalsI [where k = "round_half_even (x * 10 ^ n)"]) (simp add: py_round_def)

lemma py_round_idem: "py_round (py_round x n) n = py_round x n"
  by (simp add: py_round_decimals decimals_py_round)

lemma close_won:
  "close t True xp = (py_round (shares t - bet_size t) 4,
     t\<lparr>exit_price := Some xp, pnl := Some (py_round (shares t - bet_size t) 4), status := ''WIN''\<rparr>)"
  by (simp add: close_def Let_def)

lemma close_lost:
  "close t False xp = (py_round (- bet_size t) 4,
     t\<lparr>exit_price := Some xp, pnl := Some (py_round (- bet_size t) 4), status := ''LOSS''\<rparr>)"
  by (simp add: close_def Let_def)

lemma close_trade_Some:
  assumes "active_trade p = Some tr"
  shows "close_trade up down fw p =
     (let won = (case fw of Some w \<Rightarrow> w | None \<Rightarrow> 1 / 2 \<le> current_price_for_trade p up down);
          v = (if won then py_round (shares tr - bet_size tr) 4 else py_round (- bet_size tr) 4);
          tr' = tr\<lparr>exit_price := Some (if won then 1 else 0), pnl := Some v,
                   status := (if won then ''WIN'' else ''LOSS'')\<rparr>;
          c = py_round (capital p + bet_size tr + v) 4;
          h = pnl_history p @ [py_round (c - initial_capital p) 4]
      in (Some tr',
          p\<lparr>capital := c, closed_trades := closed_trades p @ [tr'], active_trade := None,
            signal_streak := no_streak, pnl_history := h,
            db := map_option (\<lambda>d. save_portfolio_state c (initial_capital p) h (trade_counter p)
                                    (save_trade tr' d)) (db p)\<rparr>))"
  using assms
  by (cases fw) (auto simp add: close_trade_def current_price_for_trade_def close_won close_lost Let_def py_round_idem)

section \<open>Steps and runs\<close>

lemma run_Nil: "run [] p = p"
  by (simp add: run_def)

lemma run_snoc: "run (ops @ [a]) p = step a (run ops p)"
  by (simp add: run_def)

lemma run_append: "run (ops @ ops') p = run ops' (run ops p)"
  by (simp add: run_def)

lemma consider_entry_unfold:
  "consider_entry sig m up down now p =
     (if active_trade p \<noteq> None \<or> capital p < 1 then (False, p)
      else if \<not> directional (label sig) then (False, p\<lparr>signal_streak := no_streak\<rparr>)
      else if count (track_streak (signal_streak p) (direction_of (label sig))) < ENTRY_AFTER_N
              \<or> confidence sig < MIN_CONFIDENCE
              \<or> (if direction_of (label sig) = ''UP'' then up else down) \<le> 1 / 100
      then (False, p\<lparr>signal_streak := track_streak (signal_streak p) (direction_of (label sig))\<rparr>)
      else (True,
            p\<lparr>trade_counter := trade_counter p + 1,
              active_trade := Some
                \<lparr>trade_id = trade_counter p + 1, market = m,
                 direction = direction_of (label sig),
                 entry_price = (if direction_of (label sig) = ''UP'' then up else down),
                 shares = py_round (py_round (capital p * trade_pct p) 2
                            / (if direction_of (label sig) = ''UP'' then up else down)) 4,
                 bet_size = py_round (capital p * trade_pct p) 2, entry_time = now,
                 exit_price = None, pnl = None, status = ''OPEN''\<rparr>,
              signal_streak := no_streak,
              db := map_option (save_trade
                \<lparr>trade_id = trade_counter p + 1, market = m,
                 direction = direction_of (label sig),
                 entry_price = (if direction_of (label sig) = ''UP'' then up else down),
                 shares = py_round (py_round (capital p * trade_pct p) 2
                            / (if direction_of (label sig) = ''UP'' then up else down)) 4,
                 bet_size = py_round (capital p * trade_pct p) 2, entry_time = now,
                 exit_price = None, pnl = None, status = ''OPEN''\<rparr>) (db p)\<rparr>))"
  by (simp add: consider_entry_def Let_def)

lemma consider_entry_cases:
  obtains (refused) s where "consider_entry sig m up down now p = (False, p\<lparr>signal_streak := s\<rparr>)"
  | (entered) t where "active_trade p = None" "open_fields t"
      "consider_entry sig m up down now p =
         (True, p\<lparr>trade_counter := trade_counter p + 1, active_trade := Some t,
                  signal_streak := no_streak, db := map_option (save_trade t) (db p)\<rparr>)"
proof (cases "fst (consider_entry sig m up down now p)")
  case False
  then have "consider_entry sig m up down now p =
      (False, p\<lparr>signal_streak := signal_streak (snd (consider_entry sig m up down now p))\<rparr>)"
    by (simp add: consider_entry_unfold split: if_splits)
  then show thesis by (rule refused)
next
  case True
  then have "active_trade p = None"
    by (simp add: consider_entry_unfold split: if_splits)
  moreover from True have "consider_entry sig m up down now p =
      (True, p\<lparr>trade_counter := trade_counter p + 1,
               active_trade := active_trade (snd (consider_entry sig m up down now p)),
               signal_streak := no_streak,
               db := map_option (save_trade (the (active_trade (snd (consider_entry sig m up down now p))))) (db p)\<rparr>)"
    by (simp add: consider_entry_unfold split: if_splits)
  moreover from True have "\<exists>t. active_trade (snd (consider_entry sig m up down now p)) = Some t \<and> open_fields t"
    by (simp add: consider_entry_unfold open_fields_def split: if_splits)
  ultimately show thesis using entered by (metis option.sel)
qed

lemma lifecycle_consider_entry:
  "lifecycle p \<Longrightarrow> lifecycle (snd (consider_entry sig m up down now p))"
  by (rule consider_entry_cases [of sig m up down now p]) (simp_all add: lifecycle_def)

lemma lifecycle_close_trade:
  "lifecycle p \<Longrightarrow> lifecycle (snd (close_trade up down fw p))"
proof (cases "active_trade p")
  case None
  then show "lifecycle p \<Longrightarrow> ?thesis" by (simp add: close_trade_def)
next
  case (Some tr)
  then show "lifecycle p \<Longrightarrow> ?thesis"
    by (simp add: close_trade_Some Let_def lifecycle_def closed_fields_def)
qed

lemma lifecycle_cancel:
  "lifecycle p \<Longrightarrow> lifecycle (cancel_active_trade p)"
  by (cases "active_trade p")
     (simp_all add: cancel_active_trade_def Let_def lifecycle_def closed_fields_def open_fields_def)

lemma lifecycle_step: "lifecycle p \<Longrightarrow> lifecycle (step a p)"
  by (cases a) (simp_all add: lifecycle_consider_entry lifecycle_close_trade lifecycle_cancel)

lemma lifecycle_Portfolio: "lifecycle (Portfolio ic tp d)"
  by (simp add: lifecycle_def Portfolio_def)

lemma lifecycle_run: "lifecycle p \<Longrightarrow> lifecycle (run ops p)"
  by (induction ops rule: rev_induct) (simp_all add: run_Nil run_snoc lifecycle_step)

lemma closed_step: "\<exists>ys. closed_trades (step a p) = closed_trades p @ ys"
proof (cases a)
  case (ConsiderEntry sig m up down now)
  show ?thesis
    by (rule consider_entry_cases [of sig m up down now p]) (simp_all add: ConsiderEntry)
next
  case (CloseTrade up down fw)
  then show ?thesis
  proof (cases "active_trade p")
    case None
    then show ?thesis by (simp add: CloseTrade close_trade_def)
  next
    case (Some tr)
    then show ?thesis by (simp add: CloseTrade close_trade_Some Let_def)
  qed
next
  case CancelActiveTrade
  then show ?thesis
    by (cases "active_trade p") (simp_all add: cancel_active_trade_def Let_def)
qed

lemma closed_run: "\<exists>ys. closed_trades (run ops p) = closed_trades p @ ys"
proof (induction ops rule: rev_induct)
  case Nil
  then show ?case by (simp add: run_Nil)
next
  case (snoc a ops)
  then obtain ys where ys: "closed_trades (run ops p) = closed_trades p @ ys" by blast
  obtain zs where "closed_trades (step a (run ops p)) = closed_trades (run ops p) @ zs"
    using closed_step by blast
  then show ?case by (simp add: run_snoc ys)
qed

section \<open>Capital at resolution\<close>

lemmas scenario_eval = run_def four_up_def up_signal_def Portfolio_def consider_entry_unfold
  directional_def direction_of_def track_streak_def no_streak_def ENTRY_AFTER_N_def
  MIN_CONFIDENCE_def INITIAL_CAPITAL_def TRADE_PCT_def scenario_trade_def py_round_eval eval_nat_numeral

lemma run_four_up:
  "run four_up (Portfolio INITIAL_CAPITAL TRADE_PCT None) =
     \<lparr>initial_capital = 100, capital = 100, trade_pct = 2 / 100,
      active_trade = Some scenario_trade, closed_trades = [], pnl_history = [0],
      trade_counter = 1, db = None, signal_streak = no_streak\<rparr>"
  by (simp add: scenario_eval)





section \<open>At most one active trade\<close>

lemma no_open_closed:
  "lifecycle p \<Longrightarrow> filter (\<lambda>t. status t = ''OPEN'') (closed_trades p) = []"
  by (auto simp add: lifecycle_def list_all_iff closed_fields_def filter_empty_conv)

text \<open>
  C2. While a trade is active, \<open>consider_entry\<close> returns false and hands the portfolio
  back as it was, whatever the signal, the market and the prices. Hence in every state
  that the operations reach from a new portfolio, at most one of the trades it holds is
  OPEN.
\<close>

theorem one_active_trade:
  "(active_trade p \<noteq> None \<longrightarrow> consider_entry sig m up down now p = (False, p))
   \<and> length (filter (\<lambda>t. status t = ''OPEN'') (all_trades (run ops (Portfolio ic tp d)))) \<le> 1"
proof -
  have "lifecycle (run ops (Portfolio ic tp d))"
    by (simp add: lifecycle_run lifecycle_Portfolio)
  then have "filter (\<lambda>t. status t = ''OPEN'') (closed_trades (run ops (Portfolio ic tp d))) = []"
    by (rule no_open_closed)
  then have "length (filter (\<lambda>t. status t = ''OPEN'') (all_trades (run ops (Portfolio ic tp d)))) \<le> 1"
    by (simp add: all_trades_def split: option.split)
  then show ?thesis by (simp add: consider_entry_def)
qed

theorem one_active_trade_witness:
  "active_trade (run four_up (Portfolio INITIAL_CAPITAL TRADE_PCT None)) \<noteq> None
   \<and> consider_entry (up_signal 99) ''another market'' (4 / 10) (6 / 10) ''12:00:03''
        (run four_up (Portfolio INITIAL_CAPITAL TRADE_PCT None))
       = (False, run four_up (Portfolio INITIAL_CAPITAL TRADE_PCT None))
   \<and> length (filter (\<lambda>t. status t = ''OPEN'')
         (all_trades (run four_up (Portfolio INITIAL_CAPITAL TRADE_PCT None)))) = 1"
proof -
  have a: "active_trade (run four_up (Portfolio INITIAL_CAPITAL TRADE_PCT None)) \<noteq> None"
    by (simp add: run_four_up)
  have l: "length (filter (\<lambda>t. status t = ''OPEN'')
         (all_trades (run four_up (Portfolio INITIAL_CAPITAL TRADE_PCT None)))) = 1"
    by (simp add: run_four_up all_trades_def scenario_trade_def)
  show ?thesis
    using one_active_trade [of "run four_up (Portfolio INITIAL_CAPITAL TRADE_PCT None)"
        "up_signal 99" "''another market''" "4 / 10" "6 / 10" "''12:00:03''" four_up
        INITIAL_CAPITAL TRADE_PCT None] a l
    by simp
qed

section \<open>The pnl history\<close>

text \<open>
  C5. A \<open>close_trade\<close> that resolves a trade appends one element to \<open>pnl_history\<close>:
  \<open>round(capital - initial_capital, 4)\<close>, of the capital after its update. A
  \<open>close_trade\<close> without an active trade, \<open>cancel_active_trade\<close> and
  \<open>consider_entry\<close> leave \<open>pnl_history\<close> as it is.
\<close>

theorem pnl_history_discipline:
  "(active_trade p = Some tr \<longrightarrow>
      pnl_history (snd (close_trade up down fw p)) =
        pnl_history p @ [py_round (capital (snd (close_trade up down fw p))
                                    - initial_capital (snd (close_trade up down fw p))) 4])
   \<and> (active_trade p = None \<longrightarrow> pnl_history (snd (close_trade up down fw p)) = pnl_history p)
   \<and> pnl_history (cancel_active_trade p) = pnl_history p
   \<and> pnl_history (snd (consider_entry sig m up' down' now p)) = pnl_history p"
proof -
  have "pnl_history (snd (close_trade up down fw p)) =
        pnl_history p @ [py_round (capital (snd (close_trade up down fw p))
                                    - initial_capital (snd (close_trade up down fw p))) 4]"
    if "active_trade p = Some tr"
    by (simp add: close_trade_Some [OF that] Let_def)
  moreover have "pnl_history (snd (close_trade up down fw p)) = pnl_history p"
    if "active_trade p = None"
    using that by (simp add: close_trade_def)
  moreover have "pnl_history (cancel_active_trade p) = pnl_history p"
    by (cases "active_trade p") (simp_all add: cancel_active_trade_def Let_def)
  moreover have "pnl_history (snd (consider_entry sig m up' down' now p)) = pnl_history p"
    by (rule consider_entry_cases [of sig m up' down' now p]) simp_all
  ultimately show ?thesis by blast
qed

theorem pnl_history_discipline_witness:
  "pnl_history (snd (close_trade (7 / 10) (3 / 10) None
       (run four_up (Portfolio INITIAL_CAPITAL TRADE_PCT None)))) = [0, 5]
   \<and> pnl_history (snd (close_trade (7 / 10) (3 / 10) None
       (Portfolio INITIAL_CAPITAL TRADE_PCT None))) = [0]"
proof -
  have a: "active_trade (run four_up (Portfolio INITIAL_CAPITAL TRADE_PCT None)) = Some scenario_trade"
    by (simp add: run_four_up)
  have b: "active_trade (Portfolio INITIAL_CAPITAL TRADE_PCT None) = None"
    by (simp add: Portfolio_def)
  have c: "capital (snd (close_trade (7 / 10) (3 / 10) None
       (run four_up (Portfolio INITIAL_CAPITAL TRADE_PCT None)))) = 105"
    "initial_capital (snd (close_trade (7 / 10) (3 / 10) None
       (run four_up (Portfolio INITIAL_CAPITAL TRADE_PCT None)))) = 100"
    by (simp_all add: close_trade_Some [OF a] Let_def current_price_for_trade_def a)
       (simp_all add: run_four_up scenario_trade_def py_round_eval)
  have h: "pnl_history (run four_up (Portfolio INITIAL_CAPITAL TRADE_PCT None)) = [0]"
    by (simp add: run_four_up)
  have h': "pnl_history (Portfolio INITIAL_CAPITAL TRADE_PCT None) = [0]"
    by (simp add: Portfolio_def)
  show ?thesis
    using pnl_history_discipline [of "run four_up (Portfolio INITIAL_CAPITAL TRADE_PCT None)"
        scenario_trade "7 / 10" "3 / 10" None]
      pnl_history_discipline [of "Portfolio INITIAL_CAPITAL TRADE_PCT None"
        scenario_trade "7 / 10" "3 / 10" None]
      a b
    by (simp add: c h h' py_round_eval)
qed

section \<open>The resolution rule\<close>

text \<open>
  C6. Without an active trade \<open>close_trade\<close> returns none and changes nothing.
  Otherwise a supplied \<open>force_winner\<close> alone decides the win, and without it the held
  side wins exactly when its final price is at least 0.5; the exit price is 1.0 on a win
  and 0.0 on a loss, whatever the prices passed.
\<close>

theorem close_trade_resolution:
  "(active_trade p = None \<longrightarrow> close_trade up down fw p = (None, p))
   \<and> (active_trade p = Some tr \<longrightarrow>
        (\<exists>tr'. fst (close_trade up down fw p) = Some tr'
           \<and> closed_trades (snd (close_trade up down fw p)) = closed_trades p @ [tr']
           \<and> active_trade (snd (close_trade up down fw p)) = None
           \<and> (status tr' = ''WIN'' \<or> status tr' = ''LOSS'')
           \<and> (\<forall>w. fw = Some w \<longrightarrow> (status tr' = ''WIN'' \<longleftrightarrow> w))
           \<and> (fw = None \<longrightarrow>
                (status tr' = ''WIN'' \<longleftrightarrow> 1 / 2 \<le> current_price_for_trade p up down))
           \<and> (status tr' = ''WIN'' \<longrightarrow> exit_price tr' = Some 1)
           \<and> (status tr' = ''LOSS'' \<longrightarrow> exit_price tr' = Some 0)))"
proof -
  have "close_trade up down fw p = (None, p)" if "active_trade p = None"
    using that by (simp add: close_trade_def)
  moreover have "\<exists>tr'. fst (close_trade up down fw p) = Some tr'
           \<and> closed_trades (snd (close_trade up down fw p)) = closed_trades p @ [tr']
           \<and> active_trade (snd (close_trade up down fw p)) = None
           \<and> (status tr' = ''WIN'' \<or> status tr' = ''LOSS'')
           \<and> (\<forall>w. fw = Some w \<longrightarrow> (status tr' = ''WIN'' \<longleftrightarrow> w))
           \<and> (fw = None \<longrightarrow>
                (status tr' = ''WIN'' \<longleftrightarrow> 1 / 2 \<le> current_price_for_trade p up down))
           \<and> (status tr' = ''WIN'' \<longrightarrow> exit_price tr' = Some 1)
           \<and> (status tr' = ''LOSS'' \<longrightarrow> exit_price tr' = Some 0)"
    if "active_trade p = Some tr"
    by (cases fw) (simp_all add: close_trade_Some [OF that] Let_def)
  ultimately show ?thesis by blast
qed

theorem close_trade_resolution_witness:
  "close_trade (7 / 10) (3 / 10) None (Portfolio INITIAL_CAPITAL TRADE_PCT None)
     = (None, Portfolio INITIAL_CAPITAL TRADE_PCT None)
   \<and> (\<exists>tr'. fst (close_trade (7 / 10) (3 / 10) (Some False)
                 (run four_up (Portfolio INITIAL_CAPITAL TRADE_PCT None))) = Some tr'
          \<and> status tr' = ''LOSS'' \<and> exit_price tr' = Some 0)"
proof -
  have a: "active_trade (run four_up (Portfolio INITIAL_CAPITAL TRADE_PCT None)) = Some scenario_trade"
    by (simp add: run_four_up)
  have b: "active_trade (Portfolio INITIAL_CAPITAL TRADE_PCT None) = None"
    by (simp add: Portfolio_def)
  show ?thesis
    using close_trade_resolution [of "run four_up (Portfolio INITIAL_CAPITAL TRADE_PCT None)"
        "7 / 10" "3 / 10" "Some False" scenario_trade]
      close_trade_resolution [of "Portfolio INITIAL_CAPITAL TRADE_PCT None"
        "7 / 10" "3 / 10" None scenario_trade]
      a b
    by auto
qed

section \<open>Refused entries\<close>

text \<open>
  C9. When \<open>consider_entry\<close> returns false, for whatever reason, it changes the
  signal streak at most: the capital, the initial capital, the staked fraction, the
  active trade, the closed trades, the pnl history, the trade counter and the database
  are as before. The streak is as before after the first two guards, empty after a label
  that is not directional, and otherwise the tracked streak, which the refusal for a
  degenerate price keeps.
\<close>

theorem consider_entry_refusal:
  assumes "fst (consider_entry sig m up down now p) = False"
  shows "snd (consider_entry sig m up down now p) =
           p\<lparr>signal_streak :=
               (if active_trade p \<noteq> None \<or> capital p < 1 then signal_streak p
                else if \<not> directional (label sig) then no_streak
                else track_streak (signal_streak p) (direction_of (label sig)))\<rparr>
         \<and> capital (snd (consider_entry sig m up down now p)) = capital p
         \<and> initial_capital (snd (consider_entry sig m up down now p)) = initial_capital p
         \<and> trade_pct (snd (consider_entry sig m up down now p)) = trade_pct p
         \<and> active_trade (snd (consider_entry sig m up down now p)) = active_trade p
         \<and> closed_trades (snd (consider_entry sig m up down now p)) = closed_trades p
         \<and> pnl_history (snd (consider_entry sig m up down now p)) = pnl_history p
         \<and> trade_counter (snd (consider_entry sig m up down now p)) = trade_counter p
         \<and> db (snd (consider_entry sig m up down now p)) = db p"
proof -
  have "snd (consider_entry sig m up down now p) =
           p\<lparr>signal_streak :=
               (if active_trade p \<noteq> None \<or> capital p < 1 then signal_streak p
                else if \<not> directional (label sig) then no_streak
                else track_streak (signal_streak p) (direction_of (label sig)))\<rparr>"
  proof (cases "active_trade p \<noteq> None \<or> capital p < 1")
    case True
    then show ?thesis by (simp add: consider_entry_unfold)
  next
    case guards: False
    show ?thesis
    proof (cases "directional (label sig)")
      case False
      with guards show ?thesis by (simp add: consider_entry_unfold)
    next
      case True
      with guards assms show ?thesis
        by (cases "count (track_streak (signal_streak p) (direction_of (label sig))) < ENTRY_AFTER_N
              \<or> confidence sig < MIN_CONFIDENCE
              \<or> (if direction_of (label sig) = ''UP'' then up else down) \<le> 1 / 100")
           (simp_all add: consider_entry_unfold)
    qed
  qed
  then show ?thesis by simp
qed

lemma directional_UP: "directional ''UP''"
  by (simp add: directional_def)

lemma direction_of_UP: "direction_of ''UP'' = ''UP''"
  by (simp add: direction_of_def)

theorem consider_entry_refusal_witness:
  "fst (consider_entry (up_signal 99) ''m'' (1 / 100) (99 / 100) ''12:00:00'' degenerate_portfolio)
     = False
   \<and> snd (consider_entry (up_signal 99) ''m'' (1 / 100) (99 / 100) ''12:00:00'' degenerate_portfolio)
     = degenerate_portfolio\<lparr>signal_streak := \<lparr>streak_label = Some ''UP'', count = 4\<rparr>\<rparr>"
proof -
  have f: "fst (consider_entry (up_signal 99) ''m'' (1 / 100) (99 / 100) ''12:00:00''
             degenerate_portfolio) = False"
    by (simp add: consider_entry_unfold degenerate_portfolio_def Portfolio_def up_signal_def
          directional_UP direction_of_UP INITIAL_CAPITAL_def)
  show ?thesis
    using consider_entry_refusal [OF f] f
    by (simp add: degenerate_portfolio_def Portfolio_def up_signal_def directional_UP
          direction_of_UP INITIAL_CAPITAL_def track_streak_def)
qed

text \<open>
  C7. Once the guards on the active trade, the capital, the label, the streak and the
  confidence are passed, an entry price of exactly 0.01 on the chosen side is refused
  and no trade is created, and an entry price of 0.0101 is accepted and opens a trade.
\<close>

theorem entry_price_boundary:
  assumes "active_trade p = None" and "1 \<le> capital p" and "directional (label sig)"
    and "4 \<le> count (track_streak (signal_streak p) (direction_of (label sig)))"
    and "65 \<le> confidence sig"
  shows "((if direction_of (label sig) = ''UP'' then up else down) = 1 / 100 \<longrightarrow>
            fst (consider_entry sig m up down now p) = False
            \<and> active_trade (snd (consider_entry sig m up down now p)) = None
            \<and> trade_counter (snd (consider_entry sig m up down now p)) = trade_counter p)
         \<and> ((if direction_of (label sig) = ''UP'' then up' else down') = 101 / 10000 \<longrightarrow>
            fst (consider_entry sig m up' down' now p) = True
            \<and> (\<exists>t. active_trade (snd (consider_entry sig m up' down' now p)) = Some t
                  \<and> trade_id t = trade_counter p + 1
                  \<and> entry_price t = 101 / 10000
                  \<and> status t = ''OPEN''))"
  using assms
  by (simp add: consider_entry_unfold ENTRY_AFTER_N_def MIN_CONFIDENCE_def)

theorem entry_price_boundary_witness:
  "fst (consider_entry (up_signal 99) ''m'' (1 / 100) (99 / 100) ''12:00:00'' degenerate_portfolio)
     = False
   \<and> fst (consider_entry (up_signal 99) ''m'' (101 / 10000) (99 / 100) ''12:00:00''
            degenerate_portfolio) = True"
proof -
  have h: "active_trade degenerate_portfolio = None" "1 \<le> capital degenerate_portfolio"
    "directional (label (up_signal 99))"
    "4 \<le> count (track_streak (signal_streak degenerate_portfolio)
                   (direction_of (label (up_signal 99))))"
    "65 \<le> confidence (up_signal 99)"
    by (simp_all add: degenerate_portfolio_def Portfolio_def up_signal_def directional_UP
          direction_of_UP INITIAL_CAPITAL_def track_streak_def)
  show ?thesis
    using entry_price_boundary [OF h, of "1 / 100" "99 / 100" "''m''" "''12:00:00''"
        "101 / 10000" "99 / 100"]
    by (simp add: up_signal_def direction_of_UP)
qed

section \<open>The streak gate\<close>

lemma streak_refused:
  assumes "active_trade p = None" and "1 \<le> capital p"
    and "signal_streak p = \<lparr>streak_label = l, count = k\<rparr>"
    and "l = None \<or> l = Some ''UP''" and "k < 3"
  shows "consider_entry (up_signal c) m up down now p =
           (False, p\<lparr>signal_streak := \<lparr>streak_label = Some ''UP'',
                                        count = (if l = None then 1 else k + 1)\<rparr>\<rparr>)"
  using assms
  by (auto simp add: consider_entry_unfold up_signal_def directional_UP direction_of_UP
        track_streak_def ENTRY_AFTER_N_def)

lemma signalled_directional:
  "directional l \<Longrightarrow> signalled_direction l = Some (direction_of l)"
  by (auto simp add: directional_def signalled_direction_def direction_of_def)

lemma signalled_not_directional:
  "\<not> directional l \<Longrightarrow> signalled_direction l = None"
  by (auto simp add: directional_def signalled_direction_def)

lemma tracked_Nil: "tracked [] = no_streak"
  by (simp add: tracked_def consecutive_count_def no_streak_def)

lemma tracked_snoc_none:
  "\<not> directional l \<Longrightarrow> tracked (labels @ [l]) = no_streak"
  by (simp add: tracked_def consecutive_count_def no_streak_def signalled_not_directional)

lemma tracked_snoc_dir:
  "directional l \<Longrightarrow> tracked (labels @ [l]) = track_streak (tracked labels) (direction_of l)"
  by (cases "rev labels")
     (auto simp add: tracked_def consecutive_count_def track_streak_def signalled_directional
        split: option.splits)

lemma count_tracked: "count (tracked labels) = consecutive_count labels"
  by (simp add: tracked_def)

lemma consecutive_count_not_directional:
  "\<not> directional l \<Longrightarrow> consecutive_count (labels @ [l]) = 0"
  by (simp add: consecutive_count_def signalled_not_directional)

lemma run_Cons: "run (a # ops) p = run ops (step a p)"
  by (simp add: run_def)

lemma consider_entry_tracked:
  assumes "active_trade p = None" and "1 \<le> capital p" and "signal_streak p = tracked labels"
  shows "(fst (consider_entry sig m up down now p) \<longleftrightarrow>
            4 \<le> consecutive_count (labels @ [label sig]) \<and> 65 \<le> confidence sig
            \<and> 1 / 100 < (if signalled_direction (label sig) = Some ''UP'' then up else down))"
    and "\<not> fst (consider_entry sig m up down now p) \<Longrightarrow>
           snd (consider_entry sig m up down now p)
             = p\<lparr>signal_streak := tracked (labels @ [label sig])\<rparr>"
    and "fst (consider_entry sig m up down now p) \<Longrightarrow>
           map_option direction (active_trade (snd (consider_entry sig m up down now p)))
             = signalled_direction (label sig)"
proof -
  show "(fst (consider_entry sig m up down now p) \<longleftrightarrow>
            4 \<le> consecutive_count (labels @ [label sig]) \<and> 65 \<le> confidence sig
            \<and> 1 / 100 < (if signalled_direction (label sig) = Some ''UP'' then up else down))"
  proof (cases "directional (label sig)")
    case False
    with assms show ?thesis
      by (simp add: consider_entry_unfold consecutive_count_not_directional)
  next
    case True
    have c: "count (track_streak (tracked labels) (direction_of (label sig)))
               = consecutive_count (labels @ [label sig])"
      using tracked_snoc_dir [OF True, of labels] by (simp add: count_tracked [symmetric])
    have d: "(signalled_direction (label sig) = Some ''UP'') = (direction_of (label sig) = ''UP'')"
      by (simp add: signalled_directional [OF True])
    from assms True show ?thesis
      by (auto simp add: consider_entry_unfold c d ENTRY_AFTER_N_def MIN_CONFIDENCE_def)
  qed
  show "snd (consider_entry sig m up down now p)
             = p\<lparr>signal_streak := tracked (labels @ [label sig])\<rparr>"
    if "\<not> fst (consider_entry sig m up down now p)"
  proof (cases "directional (label sig)")
    case False
    with assms show ?thesis
      by (simp add: consider_entry_unfold tracked_snoc_none)
  next
    case dir: True
    show ?thesis
    proof (cases "count (track_streak (signal_streak p) (direction_of (label sig))) < ENTRY_AFTER_N
              \<or> confidence sig < MIN_CONFIDENCE
              \<or> (if direction_of (label sig) = ''UP'' then up else down) \<le> 1 / 100")
      case True
      with assms(1,2) dir have "snd (consider_entry sig m up down now p)
          = p\<lparr>signal_streak := track_streak (signal_streak p) (direction_of (label sig))\<rparr>"
        by (simp add: consider_entry_unfold)
      then show ?thesis by (simp add: assms(3) tracked_snoc_dir [OF dir])
    next
      case False
      with assms(1,2) dir have "fst (consider_entry sig m up down now p)"
        by (simp add: consider_entry_unfold)
      with that show ?thesis by simp
    qed
  qed
  show "map_option direction (active_trade (snd (consider_entry sig m up down now p)))
             = signalled_direction (label sig)"
    if "fst (consider_entry sig m up down now p)"
  proof -
    from that have "directional (label sig)"
      by (simp add: consider_entry_unfold split: if_splits)
    with that show ?thesis
      by (simp add: consider_entry_unfold signalled_directional split: if_splits)
  qed
qed

lemma refused_run:
  "active_trade p = None \<Longrightarrow> 1 \<le> capital p \<Longrightarrow> signal_streak p = tracked labels \<Longrightarrow>
   refused_all ops p \<Longrightarrow>
   run ops p = p\<lparr>signal_streak := tracked (labels @ entry_labels ops)\<rparr>"
proof (induction ops p arbitrary: labels rule: refused_all.induct)
  case (1 p)
  then show ?case by (simp add: run_Nil)
next
  case (2 sig m up_price down_price now ops p)
  let ?q = "snd (consider_entry sig m up_price down_price now p)"
  from "2.prems" have r: "\<not> fst (consider_entry sig m up_price down_price now p)"
    and ra: "refused_all ops ?q" by simp_all
  have q: "?q = p\<lparr>signal_streak := tracked (labels @ [label sig])\<rparr>"
    using consider_entry_tracked(2) [OF "2.prems"(1-3) r] .
  have "run ops ?q = ?q\<lparr>signal_streak := tracked ((labels @ [label sig]) @ entry_labels ops)\<rparr>"
    using "2.prems"(1,2) ra by (intro "2.IH") (simp_all add: q)
  then show ?case by (simp add: run_Cons q)
qed simp_all

text \<open>
  C3. From an empty streak, with no active trade and a capital of at least 1.0, three
  consecutive UP signals of confidence 99 are each refused, whatever the prices, and the
  fourth is accepted when the UP price is above 0.01. In general, after any history of
  refused calls from such a state the streak counts the consecutive signals of one
  direction at the end of the history, and the next call enters exactly when that count,
  the entering signal included, is at least 4, the confidence of the entering signal is
  at least 65 and the price of its side is above 0.01; the trade then has the direction
  of the signal. In any state at all, an entry happens only when the tracked count is at
  least 4 and the confidence at least 65.
\<close>

theorem streak_gate:
  assumes "active_trade p = None" and "signal_streak p = no_streak" and "1 \<le> capital p"
    and "1 / 100 < up4"
  shows "fst (consider_entry (up_signal 99) m1 up1 down1 now1 p) = False
         \<and> fst (consider_entry (up_signal 99) m2 up2 down2 now2
                (run [ConsiderEntry (up_signal 99) m1 up1 down1 now1] p)) = False
         \<and> fst (consider_entry (up_signal 99) m3 up3 down3 now3
                (run [ConsiderEntry (up_signal 99) m1 up1 down1 now1,
                      ConsiderEntry (up_signal 99) m2 up2 down2 now2] p)) = False
         \<and> fst (consider_entry (up_signal 99) m4 up4 down4 now4
                (run [ConsiderEntry (up_signal 99) m1 up1 down1 now1,
                      ConsiderEntry (up_signal 99) m2 up2 down2 now2,
                      ConsiderEntry (up_signal 99) m3 up3 down3 now3] p)) = True
         \<and> (\<forall>ops sig m up down now.
               refused_all ops p \<longrightarrow>
                 count (signal_streak (run ops p)) = consecutive_count (entry_labels ops)
                 \<and> (fst (consider_entry sig m up down now (run ops p)) \<longleftrightarrow>
                      4 \<le> consecutive_count (entry_labels ops @ [label sig])
                      \<and> 65 \<le> confidence sig
                      \<and> 1 / 100 < (if signalled_direction (label sig) = Some ''UP''
                                    then up else down))
                 \<and> (fst (consider_entry sig m up down now (run ops p)) \<longrightarrow>
                      map_option direction
                        (active_trade (snd (consider_entry sig m up down now (run ops p))))
                        = signalled_direction (label sig)))
         \<and> (\<forall>sig m up down now q.
               fst (consider_entry sig m up down now q) \<longrightarrow>
                 4 \<le> count (track_streak (signal_streak q) (direction_of (label sig)))
                 \<and> 65 \<le> confidence sig)"
proof -
  let ?s = "\<lambda>k. p\<lparr>signal_streak := \<lparr>streak_label = Some ''UP'', count = k\<rparr>\<rparr>"
  have c1: "consider_entry (up_signal 99) m1 up1 down1 now1 p = (False, ?s 1)"
    using streak_refused [of p None 0 99 m1 up1 down1 now1] assms
    by (simp add: no_streak_def)
  have c2: "consider_entry (up_signal 99) m2 up2 down2 now2 (?s 1) = (False, ?s 2)"
    using streak_refused [of "?s 1" "Some ''UP''" 1 99 m2 up2 down2 now2] assms by simp
  have c3: "consider_entry (up_signal 99) m3 up3 down3 now3 (?s 2) = (False, ?s 3)"
    using streak_refused [of "?s 2" "Some ''UP''" 2 99 m3 up3 down3 now3] assms by simp
  have c4: "fst (consider_entry (up_signal 99) m4 up4 down4 now4 (?s 3)) = True"
    using assms
    by (simp add: consider_entry_unfold up_signal_def directional_UP direction_of_UP
          track_streak_def ENTRY_AFTER_N_def MIN_CONFIDENCE_def)
  have g: "4 \<le> count (track_streak (signal_streak q) (direction_of (label sig)))
           \<and> 65 \<le> confidence sig"
    if "fst (consider_entry sig m up down now q)" for sig m up down now q
    using that
    by (simp add: consider_entry_unfold ENTRY_AFTER_N_def MIN_CONFIDENCE_def split: if_splits)
  have h: "count (signal_streak (run ops p)) = consecutive_count (entry_labels ops)
                 \<and> (fst (consider_entry sig m up down now (run ops p)) \<longleftrightarrow>
                      4 \<le> consecutive_count (entry_labels ops @ [label sig])
                      \<and> 65 \<le> confidence sig
                      \<and> 1 / 100 < (if signalled_direction (label sig) = Some ''UP''
                                    then up else down))
                 \<and> (fst (consider_entry sig m up down now (run ops p)) \<longrightarrow>
                      map_option direction
                        (active_trade (snd (consider_entry sig m up down now (run ops p))))
                        = signalled_direction (label sig))"
    if "refused_all ops p" for ops sig m up down now
  proof -
    have t: "signal_streak p = tracked []" by (simp add: assms(2) tracked_Nil)
    have r: "run ops p = p\<lparr>signal_streak := tracked (entry_labels ops)\<rparr>"
      using refused_run [OF assms(1,3) t that] by simp
    have a: "active_trade (run ops p) = None" "1 \<le> capital (run ops p)"
      "signal_streak (run ops p) = tracked (entry_labels ops)"
      using assms by (simp_all add: r)
    show ?thesis
      using consider_entry_tracked [OF a, of sig m up down now] a(3)
      by (simp add: count_tracked)
  qed
  show ?thesis
    using c1 c2 c3 c4 g h by (simp add: run_def)
qed

lemmas history_eval = alternating_def turning_def labelled_def Portfolio_def
  consider_entry_unfold directional_def direction_of_def track_streak_def no_streak_def
  ENTRY_AFTER_N_def MIN_CONFIDENCE_def INITIAL_CAPITAL_def TRADE_PCT_def

theorem streak_gate_witness:
  "fst (consider_entry (up_signal 99) ''m'' (4 / 10) (6 / 10) ''12:00:09''
          (run [ConsiderEntry (up_signal 99) ''m'' (4 / 10) (6 / 10) ''12:00:00'',
                ConsiderEntry (up_signal 99) ''m'' (4 / 10) (6 / 10) ''12:00:03'',
                ConsiderEntry (up_signal 99) ''m'' (4 / 10) (6 / 10) ''12:00:06'']
             (Portfolio INITIAL_CAPITAL TRADE_PCT None))) = True
   \<and> refused_all alternating (Portfolio INITIAL_CAPITAL TRADE_PCT None)
   \<and> fst (consider_entry (labelled ''DOWN'') ''m'' (4 / 10) (6 / 10) ''12:00:09''
            (run alternating (Portfolio INITIAL_CAPITAL TRADE_PCT None))) = False
   \<and> refused_all turning (Portfolio INITIAL_CAPITAL TRADE_PCT None)
   \<and> fst (consider_entry (labelled ''STRONG UP'') ''m'' (4 / 10) (6 / 10) ''12:00:12''
            (run turning (Portfolio INITIAL_CAPITAL TRADE_PCT None))) = True
   \<and> map_option direction (active_trade
         (snd (consider_entry (labelled ''STRONG UP'') ''m'' (4 / 10) (6 / 10) ''12:00:12''
            (run turning (Portfolio INITIAL_CAPITAL TRADE_PCT None))))) = Some ''UP''"
proof -
  have h: "active_trade (Portfolio INITIAL_CAPITAL TRADE_PCT None) = None"
    "signal_streak (Portfolio INITIAL_CAPITAL TRADE_PCT None) = no_streak"
    "1 \<le> capital (Portfolio INITIAL_CAPITAL TRADE_PCT None)"
    "1 / 100 < (4 / 10 :: rat)"
    by (simp_all add: Portfolio_def INITIAL_CAPITAL_def)
  have ra: "refused_all alternating (Portfolio INITIAL_CAPITAL TRADE_PCT None)"
    by (simp add: history_eval)
  have rt: "refused_all turning (Portfolio INITIAL_CAPITAL TRADE_PCT None)"
    by (simp add: history_eval)
  have ca: "consecutive_count (entry_labels alternating @ [label (labelled ''DOWN'')]) = 1"
    by (simp add: alternating_def labelled_def consecutive_count_def signalled_direction_def)
  have ct: "consecutive_count (entry_labels turning @ [label (labelled ''STRONG UP'')]) = 4"
    "signalled_direction (label (labelled ''STRONG UP'')) = Some ''UP''"
    "confidence (labelled ''STRONG UP'') = 99"
    by (simp_all add: turning_def labelled_def consecutive_count_def signalled_direction_def)
  note g = streak_gate [OF h, of "''m''" "4 / 10" "6 / 10" "''12:00:00''"
        "''m''" "4 / 10" "6 / 10" "''12:00:03''" "''m''" "4 / 10" "6 / 10" "''12:00:06''"
        "''m''" "6 / 10" "''12:00:09''"]
  from g have first: "fst (consider_entry (up_signal 99) ''m'' (4 / 10) (6 / 10) ''12:00:09''
          (run [ConsiderEntry (up_signal 99) ''m'' (4 / 10) (6 / 10) ''12:00:00'',
                ConsiderEntry (up_signal 99) ''m'' (4 / 10) (6 / 10) ''12:00:03'',
                ConsiderEntry (up_signal 99) ''m'' (4 / 10) (6 / 10) ''12:00:06'']
             (Portfolio INITIAL_CAPITAL TRADE_PCT None))) = True"
    by simp
  from g have gen: "\<And>ops sig m up down now.
               refused_all ops (Portfolio INITIAL_CAPITAL TRADE_PCT None) \<Longrightarrow>
                 (fst (consider_entry sig m up down now (run ops (Portfolio INITIAL_CAPITAL TRADE_PCT None))) \<longleftrightarrow>
                      4 \<le> consecutive_count (entry_labels ops @ [label sig])
                      \<and> 65 \<le> confidence sig
                      \<and> 1 / 100 < (if signalled_direction (label sig) = Some ''UP''
                                    then up else down))
                 \<and> (fst (consider_entry sig m up down now (run ops (Portfolio INITIAL_CAPITAL TRADE_PCT None))) \<longrightarrow>
                      map_option direction
                        (active_trade (snd (consider_entry sig m up down now (run ops (Portfolio INITIAL_CAPITAL TRADE_PCT None)))))
                        = signalled_direction (label sig))"
    by blast
  have second: "fst (consider_entry (labelled ''DOWN'') ''m'' (4 / 10) (6 / 10) ''12:00:09''
            (run alternating (Portfolio INITIAL_CAPITAL TRADE_PCT None))) = False"
    using gen [OF ra, of "labelled ''DOWN''" "''m''" "4 / 10" "6 / 10" "''12:00:09''"]
    by (simp add: ca)
  have third: "fst (consider_entry (labelled ''STRONG UP'') ''m'' (4 / 10) (6 / 10) ''12:00:12''
            (run turning (Portfolio INITIAL_CAPITAL TRADE_PCT None))) = True"
    "map_option direction (active_trade
         (snd (consider_entry (labelled ''STRONG UP'') ''m'' (4 / 10) (6 / 10) ''12:00:12''
            (run turning (Portfolio INITIAL_CAPITAL TRADE_PCT None))))) = Some ''UP''"
    using gen [OF rt, of "labelled ''STRONG UP''" "''m''" "4 / 10" "6 / 10" "''12:00:12''"]
    by (simp_all add: ct)
  show ?thesis using first second third ra rt by simp
qed

section \<open>Resolved trades\<close>

lemma fresh_ids_Portfolio: "fresh_ids (Portfolio ic tp d)"
  by (simp add: fresh_ids_def all_trades_def Portfolio_def)

lemma fresh_ids_consider_entry:
  "fresh_ids p \<Longrightarrow> fresh_ids (snd (consider_entry sig m up down now p))"
proof (rule consider_entry_cases [of sig m up down now p])
  fix s
  assume "fresh_ids p" "consider_entry sig m up down now p = (False, p\<lparr>signal_streak := s\<rparr>)"
  then show ?thesis by (simp add: fresh_ids_def all_trades_def)
next
  fix t
  assume f: "fresh_ids p" and a: "active_trade p = None"
    and c: "consider_entry sig m up down now p =
         (True, p\<lparr>trade_counter := trade_counter p + 1, active_trade := Some t,
                  signal_streak := no_streak, db := map_option (save_trade t) (db p)\<rparr>)"
  have "trade_id t = trade_counter p + 1"
  proof -
    from c have "fst (consider_entry sig m up down now p)" by simp
    then have "map_option trade_id (active_trade (snd (consider_entry sig m up down now p)))
                 = Some (trade_counter p + 1)"
      by (simp add: consider_entry_unfold split: if_splits)
    then show ?thesis by (simp add: c)
  qed
  with f a show ?thesis
    by (fastforce simp add: c fresh_ids_def all_trades_def)
qed

lemma fresh_ids_close_trade:
  "fresh_ids p \<Longrightarrow> fresh_ids (snd (close_trade up down fw p))"
proof (cases "active_trade p")
  case None
  then show "fresh_ids p \<Longrightarrow> ?thesis" by (simp add: close_trade_def)
next
  case (Some tr)
  then show "fresh_ids p \<Longrightarrow> ?thesis"
    by (auto simp add: close_trade_Some Let_def fresh_ids_def all_trades_def)
qed

lemma fresh_ids_cancel: "fresh_ids p \<Longrightarrow> fresh_ids (cancel_active_trade p)"
  by (cases "active_trade p")
     (auto simp add: cancel_active_trade_def Let_def fresh_ids_def all_trades_def)

lemma fresh_ids_step: "fresh_ids p \<Longrightarrow> fresh_ids (step a p)"
  by (cases a) (simp_all add: fresh_ids_consider_entry fresh_ids_close_trade fresh_ids_cancel)

lemma fresh_ids_run: "fresh_ids p \<Longrightarrow> fresh_ids (run ops p)"
  by (induction ops rule: rev_induct) (simp_all add: run_Nil run_snoc fresh_ids_step)

text \<open>
  C4, as the code has it. In every state that \<open>consider_entry\<close>, \<open>close_trade\<close> and
  \<open>cancel_active_trade\<close> reach from a new portfolio, the active trade is OPEN with
  neither exit price nor pnl, and a closed trade is a WIN or a LOSS with both, or
  CANCELLED with neither: the exit price is null exactly when the pnl is null, and
  exactly when the status is OPEN or CANCELLED. No two trades share an id. The closed
  trades only grow at the end, and a closed trade is never active again, nor is there
  later another trade with its id: once a trade has left OPEN, none of its fields changes
  again.
\<close>

theorem trade_lifecycle:
  "(\<forall>t. active_trade (run ops (Portfolio ic tp d)) = Some t \<longrightarrow>
       status t = ''OPEN'' \<and> exit_price t = None \<and> pnl t = None)
   \<and> (\<forall>t \<in> set (closed_trades (run ops (Portfolio ic tp d))).
       (status t = ''WIN'' \<or> status t = ''LOSS'') \<and> exit_price t \<noteq> None \<and> pnl t \<noteq> None
       \<or> status t = ''CANCELLED'' \<and> exit_price t = None \<and> pnl t = None)
   \<and> (\<forall>t \<in> set (all_trades (run ops (Portfolio ic tp d))).
       (status t = ''OPEN'' \<longrightarrow> exit_price t = None \<and> pnl t = None)
       \<and> (exit_price t = None \<longleftrightarrow> pnl t = None)
       \<and> (exit_price t = None \<longleftrightarrow> status t = ''OPEN'' \<or> status t = ''CANCELLED''))
   \<and> (\<forall>t \<in> set (closed_trades (run ops (Portfolio ic tp d))). status t \<noteq> ''OPEN'')
   \<and> distinct (map trade_id (all_trades (run ops (Portfolio ic tp d))))
   \<and> (\<exists>ys. closed_trades (run (ops @ later) (Portfolio ic tp d))
              = closed_trades (run ops (Portfolio ic tp d)) @ ys)
   \<and> (\<forall>t \<in> set (closed_trades (run ops (Portfolio ic tp d))).
       t \<in> set (closed_trades (run (ops @ later) (Portfolio ic tp d)))
       \<and> active_trade (run (ops @ later) (Portfolio ic tp d)) \<noteq> Some t
       \<and> (\<forall>u \<in> set (all_trades (run (ops @ later) (Portfolio ic tp d))).
             trade_id u = trade_id t \<longrightarrow> u = t))"
proof -
  let ?s = "run ops (Portfolio ic tp d)"
  let ?s' = "run (ops @ later) (Portfolio ic tp d)"
  have l: "lifecycle ?s"
    by (simp add: lifecycle_run lifecycle_Portfolio)
  have f: "fresh_ids ?s" "fresh_ids ?s'"
    by (simp_all add: fresh_ids_run fresh_ids_Portfolio)
  have act: "status t = ''OPEN'' \<and> exit_price t = None \<and> pnl t = None"
    if "active_trade ?s = Some t" for t
    using l that by (simp add: lifecycle_def open_fields_def)
  have c: "closed_fields t" if "t \<in> set (closed_trades ?s)" for t
    using l that by (simp add: lifecycle_def list_all_iff)
  have cl: "(status t = ''WIN'' \<or> status t = ''LOSS'') \<and> exit_price t \<noteq> None \<and> pnl t \<noteq> None
       \<or> status t = ''CANCELLED'' \<and> exit_price t = None \<and> pnl t = None"
    if "t \<in> set (closed_trades ?s)" for t
    using c [OF that] by (simp add: closed_fields_def)
  have a: "open_fields t \<or> closed_fields t" if "t \<in> set (all_trades ?s)" for t
    using l that c
    by (auto simp add: all_trades_def lifecycle_def split: option.splits)
  have every: "(status t = ''OPEN'' \<longrightarrow> exit_price t = None \<and> pnl t = None)
       \<and> (exit_price t = None \<longleftrightarrow> pnl t = None)
       \<and> (exit_price t = None \<longleftrightarrow> status t = ''OPEN'' \<or> status t = ''CANCELLED'')"
    if "t \<in> set (all_trades ?s)" for t
    using a [OF that] by (auto simp add: open_fields_def closed_fields_def)
  have notopen: "status t \<noteq> ''OPEN''" if "t \<in> set (closed_trades ?s)" for t
    using c [OF that] by (auto simp add: closed_fields_def)
  have dist: "distinct (map trade_id (all_trades ?s))"
    using f(1) by (simp add: fresh_ids_def)
  obtain ys where ys: "closed_trades ?s' = closed_trades ?s @ ys"
    using closed_run [of later ?s] by (auto simp add: run_append)
  have keep: "t \<in> set (closed_trades ?s')
       \<and> active_trade ?s' \<noteq> Some t
       \<and> (\<forall>u \<in> set (all_trades ?s'). trade_id u = trade_id t \<longrightarrow> u = t)"
    if "t \<in> set (closed_trades ?s)" for t
  proof -
    have m: "t \<in> set (closed_trades ?s')" using that by (simp add: ys)
    then have m': "t \<in> set (all_trades ?s')" by (simp add: all_trades_def)
    have d': "distinct (map trade_id (all_trades ?s'))"
      using f(2) by (simp add: fresh_ids_def)
    then have inj: "inj_on trade_id (set (all_trades ?s'))"
      by (simp add: distinct_map)
    have same: "u = t" if "u \<in> set (all_trades ?s')" "trade_id u = trade_id t" for u
      using inj m' that by (auto dest: inj_onD)
    have "active_trade ?s' \<noteq> Some t"
    proof
      assume "active_trade ?s' = Some t"
      then have "all_trades ?s' = t # closed_trades ?s'" by (simp add: all_trades_def)
      with d' m show False by simp
    qed
    with m same show ?thesis by blast
  qed
  show ?thesis using act cl every notopen dist ys keep by blast
qed

lemma run_four_up_cancel:
  "run (four_up @ [CancelActiveTrade]) (Portfolio INITIAL_CAPITAL TRADE_PCT None) =
     \<lparr>initial_capital = 100, capital = 100, trade_pct = 2 / 100,
      active_trade = None, closed_trades = [scenario_trade\<lparr>status := ''CANCELLED''\<rparr>],
      pnl_history = [0], trade_counter = 1, db = None, signal_streak = no_streak\<rparr>"
  by (simp add: run_append run_four_up) (simp add: run_def cancel_active_trade_def Let_def)

theorem trade_lifecycle_witness:
  "scenario_trade\<lparr>status := ''CANCELLED''\<rparr>
     \<in> set (closed_trades (run (four_up @ [CancelActiveTrade]) (Portfolio INITIAL_CAPITAL TRADE_PCT None)))
   \<and> exit_price (scenario_trade\<lparr>status := ''CANCELLED''\<rparr>) = None
   \<and> pnl (scenario_trade\<lparr>status := ''CANCELLED''\<rparr>) = None
   \<and> scenario_trade\<lparr>status := ''CANCELLED''\<rparr>
     \<in> set (closed_trades (run ((four_up @ [CancelActiveTrade]) @ four_up)
                (Portfolio INITIAL_CAPITAL TRADE_PCT None)))
   \<and> active_trade (run ((four_up @ [CancelActiveTrade]) @ four_up)
                (Portfolio INITIAL_CAPITAL TRADE_PCT None))
        \<noteq> Some (scenario_trade\<lparr>status := ''CANCELLED''\<rparr>)"
proof -
  have m: "scenario_trade\<lparr>status := ''CANCELLED''\<rparr>
     \<in> set (closed_trades (run (four_up @ [CancelActiveTrade]) (Portfolio INITIAL_CAPITAL TRADE_PCT None)))"
    by (simp add: run_four_up_cancel)
  note all = trade_lifecycle [of "four_up @ [CancelActiveTrade]" INITIAL_CAPITAL TRADE_PCT None four_up]
  note fields = all [THEN conjunct2, THEN conjunct1, THEN bspec, OF m]
  note kept = all [THEN conjunct2, THEN conjunct2, THEN conjunct2, THEN conjunct2,
      THEN conjunct2, THEN conjunct2, THEN bspec, OF m]
  from fields have "exit_price (scenario_trade\<lparr>status := ''CANCELLED''\<rparr>) = None"
    "pnl (scenario_trade\<lparr>status := ''CANCELLED''\<rparr>) = None"
    by simp_all
  with m kept show ?thesis by simp
qed

text \<open>
  The cancelled trade is what separates the three conditions: its status is not OPEN
  and its exit price is null.
\<close>

theorem trade_lifecycle_counterexample:
  "closed_trades (run (four_up @ [CancelActiveTrade]) (Portfolio INITIAL_CAPITAL TRADE_PCT None))
     = [scenario_trade\<lparr>status := ''CANCELLED''\<rparr>]
   \<and> \<not> (status (scenario_trade\<lparr>status := ''CANCELLED''\<rparr>) = ''OPEN''
          \<longleftrightarrow> exit_price (scenario_trade\<lparr>status := ''CANCELLED''\<rparr>) = None)"
  by (simp add: run_four_up_cancel) (simp add: scenario_trade_def)

section \<open>Loading the persisted state\<close>

lemma rows_to_trades_append: "rows_to_trades rows acc = acc @ rows"
  by (induction rows arbitrary: acc) simp_all

lemma db_run_Nil: "db_run [] d = d"
  by (simp add: db_run_def)

lemma db_run_snoc: "db_run (ops @ [a]) d = db_step a (db_run ops d)"
  by (simp add: db_run_def)

lemma last_snapshot_snoc:
  "last_snapshot (ops @ [a]) =
     (case a of SaveTrade t \<Rightarrow> last_snapshot ops
      | SavePortfolioState c ic h n \<Rightarrow>
          Some \<lparr>row_capital = c, row_initial_capital = ic,
                 row_pnl_history = h, row_trade_counter = n\<rparr>)"
  by (induction ops rule: last_snapshot.induct) (simp_all split: db_op.splits)

lemma last_saved_snoc:
  "last_saved (ops @ [a]) i =
     (case a of SaveTrade t \<Rightarrow> if trade_id t = i then Some t else last_saved ops i
      | SavePortfolioState c ic h n \<Rightarrow> last_saved ops i)"
  by (induction ops i rule: last_saved.induct) (simp_all split: db_op.splits)

lemma portfolio_state_db_run:
  "portfolio_state (db_run ops empty_db) = last_snapshot ops"
proof (induction ops rule: rev_induct)
  case Nil
  then show ?case by (simp add: db_run_Nil empty_db_def)
next
  case (snoc a ops)
  then show ?case
    by (cases a)
       (simp_all add: db_run_snoc last_snapshot_snoc save_trade_def save_portfolio_state_def)
qed

lemma last_saved_id: "last_saved ops i = Some t \<Longrightarrow> trade_id t = i"
  by (induction ops i rule: last_saved.induct) (auto split: option.splits if_splits)

lemma trades_db_run:
  "distinct (map trade_id (trades (db_run ops empty_db)))
   \<and> (\<forall>t. t \<in> set (trades (db_run ops empty_db)) \<longleftrightarrow> last_saved ops (trade_id t) = Some t)"
proof (induction ops rule: rev_induct)
  case Nil
  then show ?case by (simp add: db_run_Nil empty_db_def)
next
  case (snoc a ops)
  show ?case
  proof (cases a)
    case (SaveTrade u)
    have d: "distinct (map trade_id (filter (\<lambda>r. trade_id r \<noteq> trade_id u)
               (trades (db_run ops empty_db))))"
      using snoc by (simp add: distinct_map_filter)
    have "distinct (map trade_id (trades (db_run (ops @ [a]) empty_db)))"
      using d by (auto simp add: db_run_snoc SaveTrade save_trade_def)
    moreover have "t \<in> set (trades (db_run (ops @ [a]) empty_db))
        \<longleftrightarrow> last_saved (ops @ [a]) (trade_id t) = Some t" for t
      using snoc by (auto simp add: db_run_snoc SaveTrade save_trade_def last_saved_snoc)
    ultimately show ?thesis by blast
  next
    case (SavePortfolioState c ic h n)
    with snoc show ?thesis
      by (simp add: db_run_snoc save_portfolio_state_def last_saved_snoc)
  qed
qed

lemma select_closed_sorted:
  "distinct (map trade_id (trades d)) \<Longrightarrow> sorted_wrt (<) (map trade_id (select_closed d))"
proof -
  assume "distinct (map trade_id (trades d))"
  then have "distinct (map trade_id (filter (\<lambda>r. status r \<noteq> ''OPEN'') (trades d)))"
    by (simp add: distinct_map_filter)
  then have "distinct (map trade_id (select_closed d))"
    by (simp add: select_closed_def distinct_map)
  moreover have "sorted (map trade_id (select_closed d))"
    by (simp add: select_closed_def)
  ultimately show ?thesis by (simp add: strict_sorted_iff)
qed

lemma set_select_closed:
  "set (select_closed d) = {t \<in> set (trades d). status t \<noteq> ''OPEN''}"
  by (auto simp add: select_closed_def)

lemma load_state_closed:
  "load_state d = Inr r \<Longrightarrow> saved_closed_trades r = select_closed d"
  by (auto simp add: load_state_def rows_to_trades_append split: option.splits if_splits)



text \<open>
  C8, as the code has it. The snapshot and the trades are read independently of each
  other. After any sequence of writes to an empty database: when none of them was a
  \<open>save_portfolio_state\<close>, \<open>load_state\<close> returns the capital 100.0, the initial capital
  100.0, the history \<open>[0.0]\<close> and the counter 0; when the last snapshot written has a
  history that is not empty, it returns the values of that snapshot. In both cases the
  closed trades are the trades last written under their id whose status is not OPEN, in
  ascending order of id: the empty list when no such trade was written.
\<close>

theorem load_state_contract:
  "(last_snapshot ops = None \<longrightarrow>
      (\<exists>r. load_state (db_run ops empty_db) = Inr r
         \<and> saved_capital r = 100 \<and> saved_initial_capital r = 100
         \<and> saved_pnl_history r = [0] \<and> saved_trade_counter r = 0))
   \<and> (\<forall>row. last_snapshot ops = Some row \<and> row_pnl_history row \<noteq> [] \<longrightarrow>
      (\<exists>r. load_state (db_run ops empty_db) = Inr r
         \<and> saved_capital r = row_capital row
         \<and> saved_initial_capital r = row_initial_capital row
         \<and> saved_pnl_history r = row_pnl_history row
         \<and> saved_trade_counter r = row_trade_counter row))
   \<and> (\<forall>r. load_state (db_run ops empty_db) = Inr r \<longrightarrow>
         sorted_wrt (<) (map trade_id (saved_closed_trades r))
         \<and> (\<forall>t. t \<in> set (saved_closed_trades r)
                 \<longleftrightarrow> last_saved ops (trade_id t) = Some t \<and> status t \<noteq> ''OPEN'')
         \<and> ((\<forall>i t. last_saved ops i = Some t \<longrightarrow> status t = ''OPEN'')
              \<longrightarrow> saved_closed_trades r = []))"
proof -
  let ?d = "db_run ops empty_db"
  have none: "\<exists>r. load_state ?d = Inr r
         \<and> saved_capital r = 100 \<and> saved_initial_capital r = 100
         \<and> saved_pnl_history r = [0] \<and> saved_trade_counter r = 0"
    if "last_snapshot ops = None"
    using that by (simp add: load_state_def portfolio_state_db_run)
  have some: "\<exists>r. load_state ?d = Inr r
         \<and> saved_capital r = row_capital row
         \<and> saved_initial_capital r = row_initial_capital row
         \<and> saved_pnl_history r = row_pnl_history row
         \<and> saved_trade_counter r = row_trade_counter row"
    if "last_snapshot ops = Some row" "row_pnl_history row \<noteq> []" for row
    using that by (simp add: load_state_def portfolio_state_db_run)
  have closed: "sorted_wrt (<) (map trade_id (saved_closed_trades r))
         \<and> (\<forall>t. t \<in> set (saved_closed_trades r)
                 \<longleftrightarrow> last_saved ops (trade_id t) = Some t \<and> status t \<noteq> ''OPEN'')
         \<and> ((\<forall>i t. last_saved ops i = Some t \<longrightarrow> status t = ''OPEN'')
              \<longrightarrow> saved_closed_trades r = [])"
    if "load_state ?d = Inr r" for r
  proof -
    have c: "saved_closed_trades r = select_closed ?d"
      using that by (rule load_state_closed)
    have m: "t \<in> set (saved_closed_trades r)
                 \<longleftrightarrow> last_saved ops (trade_id t) = Some t \<and> status t \<noteq> ''OPEN''" for t
      using trades_db_run [of ops] by (simp add: c set_select_closed)
    have s: "sorted_wrt (<) (map trade_id (saved_closed_trades r))"
      using trades_db_run [of ops] by (simp add: c select_closed_sorted)
    have e: "saved_closed_trades r = []"
      if "\<forall>i t. last_saved ops i = Some t \<longrightarrow> status t = ''OPEN''"
    proof -
      have "t \<notin> set (saved_closed_trades r)" for t
        using m [of t] that by metis
      then show ?thesis by (cases "saved_closed_trades r") auto
    qed
    show ?thesis using m s e by blast
  qed
  show ?thesis using none some closed by blast
qed

theorem load_state_contract_witness:
  "(\<exists>r. load_state (db_run [SaveTrade scenario_trade, SaveTrade won_trade,
                              SavePortfolioState 105 100 [0, 5] 1] empty_db) = Inr r
         \<and> saved_capital r = 105 \<and> saved_pnl_history r = [0, 5]
         \<and> won_trade \<in> set (saved_closed_trades r)
         \<and> scenario_trade \<notin> set (saved_closed_trades r))
   \<and> (\<exists>r. load_state (db_run [SaveTrade scenario_trade] empty_db) = Inr r
         \<and> saved_capital r = 100 \<and> saved_pnl_history r = [0]
         \<and> saved_closed_trades r = [])"
proof -
  let ?ops = "[SaveTrade scenario_trade, SaveTrade won_trade, SavePortfolioState 105 100 [0, 5] 1]"
  have a: "last_snapshot ?ops = Some \<lparr>row_capital = 105, row_initial_capital = 100,
                     row_pnl_history = [0, 5], row_trade_counter = 1\<rparr>"
    by simp
  have w: "last_saved ?ops (trade_id won_trade) = Some won_trade" "status won_trade \<noteq> ''OPEN''"
    "status scenario_trade = ''OPEN''"
    by (simp_all add: scenario_trade_def won_trade_def)
  obtain r where r: "load_state (db_run ?ops empty_db) = Inr r" "saved_capital r = 105"
    "saved_pnl_history r = [0, 5]"
    using load_state_contract [of ?ops] unfolding a by auto
  have "won_trade \<in> set (saved_closed_trades r)" "scenario_trade \<notin> set (saved_closed_trades r)"
    using load_state_contract [of ?ops] r(1) w by blast+
  with r have first: "\<exists>r. load_state (db_run ?ops empty_db) = Inr r
         \<and> saved_capital r = 105 \<and> saved_pnl_history r = [0, 5]
         \<and> won_trade \<in> set (saved_closed_trades r)
         \<and> scenario_trade \<notin> set (saved_closed_trades r)"
    by blast
  have b: "last_snapshot [SaveTrade scenario_trade] = None"
    by simp
  have o: "\<forall>i t. last_saved [SaveTrade scenario_trade] i = Some t \<longrightarrow> status t = ''OPEN''"
    by (simp add: scenario_trade_def)
  obtain q where q: "load_state (db_run [SaveTrade scenario_trade] empty_db) = Inr q"
    "saved_capital q = 100" "saved_pnl_history q = [0]"
    using load_state_contract [of "[SaveTrade scenario_trade]"] b by auto
  have "saved_closed_trades q = []"
    using load_state_contract [of "[SaveTrade scenario_trade]"] q(1) o by blast
  with q have "\<exists>r. load_state (db_run [SaveTrade scenario_trade] empty_db) = Inr r
         \<and> saved_capital r = 100 \<and> saved_pnl_history r = [0]
         \<and> saved_closed_trades r = []"
    by blast
  with first show ?thesis by blast
qed

text \<open>
  A resolved trade written without a snapshot is returned next to the default values.
\<close>

theorem load_state_counterexample:
  "portfolio_state (save_trade won_trade empty_db) = None
   \<and> load_state (save_trade won_trade empty_db)
     = Inr \<lparr>saved_capital = 100, saved_initial_capital = 100, saved_pnl_history = [0],
            saved_trade_counter = 0, saved_closed_trades = [won_trade]\<rparr>"
  by (simp add: load_state_def save_trade_def empty_db_def select_closed_def
        rows_to_trades_append won_trade_def scenario_trade_def)

section \<open>Statistics\<close>

lemma foldl_plus_sum_list: "foldl (+) a xs = a + sum_list (xs :: rat list)"
  by (induction xs arbitrary: a) (simp_all add: add.assoc)

lemma nonzero_pnl_filter:
  "filter (\<lambda>v. v \<noteq> 0) (List.map_filter pnl (filter (\<lambda>t. pnl t \<noteq> Some 0) cl))
     = filter (\<lambda>v. v \<noteq> 0) (List.map_filter pnl cl)"
  by (induction cl) (auto simp add: List.map_filter_simps split: option.splits)

lemma nonzero_pnl_empty:
  "\<forall>t \<in> set cl. pnl t = None \<or> pnl t = Some 0 \<Longrightarrow>
     filter (\<lambda>v. v \<noteq> 0) (List.map_filter pnl cl) = []"
  by (induction cl) (auto simp add: List.map_filter_simps split: option.splits)

lemma py_round_zero: "py_round 0 n = 0"
  by (simp add: py_round_eval)

lemma stats_Inr:
  "initial_capital p \<noteq> 0 \<Longrightarrow> \<exists>r. stats p up down = Inr r
     \<and> stat_best_trade r =
         py_round (py_max (filter (\<lambda>v. v \<noteq> 0) (List.map_filter pnl (closed_trades p))) 0) 4
     \<and> stat_worst_trade r =
         py_round (py_min (filter (\<lambda>v. v \<noteq> 0) (List.map_filter pnl (closed_trades p))) 0) 4
     \<and> stat_realized_pnl r = py_round (foldl (+) 0 (List.map_filter pnl (closed_trades p))) 4"
  by (simp add: stats_def Let_def)

lemma Max_insert_max: "finite S \<Longrightarrow> Max (insert (max y a) S) = Max (insert y (insert a S))"
  for y :: rat
  by (cases "S = {}") (simp_all add: max.assoc)

lemma Min_insert_min: "finite S \<Longrightarrow> Min (insert (min y a) S) = Min (insert y (insert a S))"
  for y :: rat
  by (cases "S = {}") (simp_all add: min.assoc)

lemma foldl_max_Max: "foldl max y ys = Max (insert y (set ys))" for y :: rat
  by (induction ys arbitrary: y) (simp_all add: Max_insert_max)

lemma foldl_min_Min: "foldl min y ys = Min (insert y (set ys))" for y :: rat
  by (induction ys arbitrary: y) (simp_all add: Min_insert_min)

lemma py_max_Max: "xs \<noteq> [] \<Longrightarrow> py_max xs d = Max (set xs)"
  by (cases xs) (simp_all add: py_max_def foldl_max_Max)

lemma py_min_Min: "xs \<noteq> [] \<Longrightarrow> py_min xs d = Min (set xs)"
  by (cases xs) (simp_all add: py_min_def foldl_min_Min)

lemma set_nonzero_pnl:
  "set (filter (\<lambda>v. v \<noteq> 0) (List.map_filter pnl cl))
     = {v. \<exists>t \<in> set cl. pnl t = Some v \<and> v \<noteq> 0}"
  by (force simp add: List.map_filter_def)

text \<open>
  C10. \<open>stats\<close> takes \<open>best_trade\<close> and \<open>worst_trade\<close> over the closed trades whose pnl
  is truthy: they are the rounded maximum and minimum of the pnl values that are neither
  null nor 0.0, hence what they would be without the closed trades of pnl exactly 0.0,
  and both are 0 when every closed trade has the pnl 0.0 or none. \<open>realized_pnl\<close> is
  the rounded sum over every closed trade whose pnl is not null, those of pnl 0.0
  included. The call returns whenever the initial capital is not zero.
\<close>

theorem stats_zero_pnl:
  assumes "initial_capital p \<noteq> 0"
  shows "\<exists>r r0. stats p up down = Inr r
           \<and> stats (p\<lparr>closed_trades := filter (\<lambda>t. pnl t \<noteq> Some 0) (closed_trades p)\<rparr>)
                 up down = Inr r0
           \<and> stat_best_trade r = stat_best_trade r0
           \<and> stat_worst_trade r = stat_worst_trade r0
           \<and> ({v. \<exists>t \<in> set (closed_trades p). pnl t = Some v \<and> v \<noteq> 0} \<noteq> {} \<longrightarrow>
                 stat_best_trade r =
                   py_round (Max {v. \<exists>t \<in> set (closed_trades p). pnl t = Some v \<and> v \<noteq> 0}) 4
                 \<and> stat_worst_trade r =
                   py_round (Min {v. \<exists>t \<in> set (closed_trades p). pnl t = Some v \<and> v \<noteq> 0}) 4)
           \<and> ((\<forall>t \<in> set (closed_trades p). pnl t = None \<or> pnl t = Some 0) \<longrightarrow>
                 stat_best_trade r = 0 \<and> stat_worst_trade r = 0)
           \<and> stat_realized_pnl r = py_round (sum_list (List.map_filter pnl (closed_trades p))) 4"
proof -
  let ?q = "p\<lparr>closed_trades := filter (\<lambda>t. pnl t \<noteq> Some 0) (closed_trades p)\<rparr>"
  let ?L = "filter (\<lambda>v. v \<noteq> 0) (List.map_filter pnl (closed_trades p))"
  let ?T = "{v. \<exists>t \<in> set (closed_trades p). pnl t = Some v \<and> v \<noteq> 0}"
  obtain r where r: "stats p up down = Inr r"
    "stat_best_trade r = py_round (py_max ?L 0) 4"
    "stat_worst_trade r = py_round (py_min ?L 0) 4"
    "stat_realized_pnl r = py_round (foldl (+) 0 (List.map_filter pnl (closed_trades p))) 4"
    using stats_Inr [OF assms, of up down] by blast
  have "initial_capital ?q \<noteq> 0" using assms by simp
  then obtain r0 where r0: "stats ?q up down = Inr r0"
    "stat_best_trade r0 =
       py_round (py_max (filter (\<lambda>v. v \<noteq> 0) (List.map_filter pnl (closed_trades ?q))) 0) 4"
    "stat_worst_trade r0 =
       py_round (py_min (filter (\<lambda>v. v \<noteq> 0) (List.map_filter pnl (closed_trades ?q))) 0) 4"
    using stats_Inr [of ?q up down] by blast
  have same: "stat_best_trade r = stat_best_trade r0" "stat_worst_trade r = stat_worst_trade r0"
    by (simp_all add: r r0 nonzero_pnl_filter)
  have extremes: "stat_best_trade r = py_round (Max ?T) 4
                 \<and> stat_worst_trade r = py_round (Min ?T) 4"
    if "?T \<noteq> {}"
  proof -
    have st: "set ?L = ?T" by (rule set_nonzero_pnl)
    have ne: "?L \<noteq> []"
    proof
      assume e: "?L = []"
      have "set ?L = {}" unfolding e by simp
      then have "?T = {}" unfolding st .
      with that show False by (rule notE)
    qed
    show ?thesis
      by (simp only: r py_max_Max [OF ne] py_min_Min [OF ne] st)
  qed
  have zero: "stat_best_trade r = 0 \<and> stat_worst_trade r = 0"
    if "\<forall>t \<in> set (closed_trades p). pnl t = None \<or> pnl t = Some 0"
    by (simp add: r nonzero_pnl_empty [OF that] py_max_def py_min_def py_round_zero)
  have real: "stat_realized_pnl r = py_round (sum_list (List.map_filter pnl (closed_trades p))) 4"
    by (simp add: r foldl_plus_sum_list)
  show ?thesis using r(1) r0(1) same extremes zero real by blast
qed

theorem stats_zero_pnl_witness:
  "(\<exists>r. stats ((Portfolio INITIAL_CAPITAL TRADE_PCT None)\<lparr>closed_trades := [even_trade]\<rparr>)
            (1 / 2) (1 / 2) = Inr r
         \<and> stat_best_trade r = 0 \<and> stat_worst_trade r = 0 \<and> stat_realized_pnl r = 0)
   \<and> (\<exists>r. stats ((Portfolio INITIAL_CAPITAL TRADE_PCT None)
                     \<lparr>closed_trades := [won_trade, lost_trade, even_trade]\<rparr>) (1 / 2) (1 / 2) = Inr r
         \<and> stat_best_trade r = 3 \<and> stat_worst_trade r = - 2 \<and> stat_realized_pnl r = 1)"
proof -
  let ?p = "(Portfolio INITIAL_CAPITAL TRADE_PCT None)\<lparr>closed_trades := [even_trade]\<rparr>"
  let ?q = "(Portfolio INITIAL_CAPITAL TRADE_PCT None)
              \<lparr>closed_trades := [won_trade, lost_trade, even_trade]\<rparr>"
  have i: "initial_capital ?p \<noteq> 0" "initial_capital ?q \<noteq> 0"
    by (simp_all add: Portfolio_def INITIAL_CAPITAL_def)
  have z: "\<forall>t \<in> set (closed_trades ?p). pnl t = None \<or> pnl t = Some 0"
    by (simp add: even_trade_def)
  have s: "py_round (sum_list (List.map_filter pnl (closed_trades ?p))) 4 = 0"
    "py_round (sum_list (List.map_filter pnl (closed_trades ?q))) 4 = 1"
    by (simp_all add: List.map_filter_simps even_trade_def lost_trade_def won_trade_def
          scenario_trade_def py_round_eval)
  have first: "\<exists>r. stats ?p (1 / 2) (1 / 2) = Inr r
         \<and> stat_best_trade r = 0 \<and> stat_worst_trade r = 0 \<and> stat_realized_pnl r = 0"
    using stats_zero_pnl [OF i(1), of "1 / 2" "1 / 2"] z s(1) by auto
  have t: "{v. \<exists>t \<in> set (closed_trades ?q). pnl t = Some v \<and> v \<noteq> 0} = {3, - 2}"
    by (auto simp add: even_trade_def lost_trade_def won_trade_def scenario_trade_def)
  have e: "py_round (Max {3, - 2 :: rat}) 4 = 3" "py_round (Min {3, - 2 :: rat}) 4 = - 2"
    by (simp_all add: py_round_eval)
  have second: "\<exists>r. stats ?q (1 / 2) (1 / 2) = Inr r
         \<and> stat_best_trade r = 3 \<and> stat_worst_trade r = - 2 \<and> stat_realized_pnl r = 1"
    using stats_zero_pnl [OF i(2), of "1 / 2" "1 / 2"] s(2) unfolding t e by auto
  show ?thesis using first second by blast
qed

end
